theory Spec2Isabelle
  imports Complex_Main
begin

section \<open>JavaScript values, errors and promises\<close>

text \<open>
  The runtime is TypeScript. A context item is a plain object that always carries the
  fields of \<open>BaseContextItem\<close> and any number of further payload fields, and the code
  merges such objects with the spread operator. An object is therefore a finite map from
  the names of its own properties to their values; reading a property that is absent
  gives \<open>undefined\<close>, and a property may also hold \<open>undefined\<close>.
  Logging and telemetry calls have no effect on any value the runtime computes and are
  left out of the embedding.
\<close>

datatype jsval =
    JUndefined
  | JStr string
  | JNum nat
  | JBool bool
  | JNull
  | JArr "jsval list"
  | JObj "(string \<times> jsval) list"

type_synonym jsobject = "string \<rightharpoonup> jsval"

text \<open>The property read \<open>obj.name\<close>.\<close>

definition getField :: "jsobject \<Rightarrow> string \<Rightarrow> jsval" where
  "getField obj name = (case obj name of None \<Rightarrow> JUndefined | Some v \<Rightarrow> v)"

text \<open>The object spread \<open>{...a, ...b}\<close>: the properties of \<open>b\<close> win.\<close>

definition spread :: "jsobject \<Rightarrow> jsobject \<Rightarrow> jsobject" where
  "spread a b = a ++ b"

text \<open>A thrown value. The runtime only ever reads the message of what it catches.\<close>

datatype error = Error string

fun message :: "error \<Rightarrow> string" where
  "message (Error m) = m"

text \<open>
  An awaited call either resolves (\<open>Inr\<close>) or rejects (\<open>Inl\<close>). \<open>try { body } catch (e)
  { handler }\<close> runs the handler on the rejection.
\<close>

definition try_catch :: "error + 'a \<Rightarrow> (error \<Rightarrow> error + 'a) \<Rightarrow> error + 'a" where
  "try_catch body handler = (case body of Inl e \<Rightarrow> handler e | Inr v \<Rightarrow> Inr v)"

text \<open>
  \<open>Array.prototype.findIndex\<close>; the source's \<open>-1\<close> is \<open>None\<close>.
\<close>

fun findIndex :: "('a \<Rightarrow> bool) \<Rightarrow> 'a list \<Rightarrow> nat option" where
  "findIndex P [] = None"
| "findIndex P (x # xs) = (if P x then Some 0 else map_option Suc (findIndex P xs))"

section \<open>Insertion-ordered maps\<close>

text \<open>
  A JavaScript \<open>Map\<close> keeps its keys in insertion order and \<open>set\<close> on a key that is
  present replaces the value where it stands. It is an association list.
\<close>

definition Map_get :: "('k \<times> 'v) list \<Rightarrow> 'k \<Rightarrow> 'v option" where
  "Map_get m k = map_of m k"

definition Map_has :: "('k \<times> 'v) list \<Rightarrow> 'k \<Rightarrow> bool" where
  "Map_has m k \<longleftrightarrow> k \<in> set (map fst m)"

fun Map_set :: "'k \<Rightarrow> 'v \<Rightarrow> ('k \<times> 'v) list \<Rightarrow> ('k \<times> 'v) list" where
  "Map_set k v [] = [(k, v)]"
| "Map_set k v (p # ps) = (if fst p = k then (k, v) # ps else p # Map_set k v ps)"

definition Map_keys :: "('k \<times> 'v) list \<Rightarrow> 'k list" where
  "Map_keys m = map fst m"

definition Map_values :: "('k \<times> 'v) list \<Rightarrow> 'v list" where
  "Map_values m = map snd m"

text \<open>
  \<open>Promise.all\<close> over calls that run side by side. A call is given by the moment at
  which it settles and by its outcome. \<open>Promise.all\<close> rejects as soon as one of the
  calls rejects, with the rejection of that call, wherever the call stands in the array;
  of the calls that reject at one and the same moment the one that stands first in the
  array is handled first. When every call resolves, \<open>Promise.all\<close> resolves with the
  values in array order.
\<close>

type_synonym 'a awaited = "nat \<times> (error + 'a)"

fun earliestRejection :: "'a awaited list \<Rightarrow> (nat \<times> error) option" where
  "earliestRejection [] = None"
| "earliestRejection ((moment, outcome) # calls) =
     (case outcome of
        Inr v \<Rightarrow> earliestRejection calls
      | Inl e \<Rightarrow>
          (case earliestRejection calls of
             None \<Rightarrow> Some (moment, e)
           | Some (moment', e') \<Rightarrow>
               if moment' < moment then Some (moment', e') else Some (moment, e)))"

definition Promise_all :: "'a awaited list \<Rightarrow> error + 'a list" where
  "Promise_all calls =
     (case earliestRejection calls of
        Some (moment, e) \<Rightarrow> Inl e
      | None \<Rightarrow>
          Inr (concat (map (\<lambda>(moment, outcome). case outcome of Inl e \<Rightarrow> [] | Inr v \<Rightarrow> [v])
                           calls)))"

section \<open>The model manager\<close>

text \<open>
  A model provider as the manager sees it: its id, the ids of the capabilities it
  exposes, and how its \<open>init()\<close> and \<open>checkHealth()\<close> calls settle: the moment,
  counted from the start of the call, and the outcome.
\<close>

record ModelProvider =
  provider_id :: string
  getCapabilities :: "string list"
  provider_init :: "unit awaited"
  provider_checkHealth :: "unit awaited"

text \<open>
  Modelled from the spec: the class \<open>CapabilityRegistry\<close> (\<open>managers/model/capability\<close>)
  is not among the source files. The spec has it map each capability identifier to the
  providers implementing it and track one default provider per capability.
\<close>

record CapabilityRegistry =
  providersOf :: "(string \<times> string list) list"
  defaultModels :: "(string \<times> string) list"

text \<open>Modelled from the spec: the empty \<open>CapabilityRegistry\<close>.\<close>

definition new_CapabilityRegistry :: CapabilityRegistry where
  "new_CapabilityRegistry = \<lparr>providersOf = [], defaultModels = []\<rparr>"

text \<open>
  Modelled from the spec: \<open>CapabilityRegistry.registerCapability\<close> records the provider
  among those implementing the capability.
\<close>

definition CapabilityRegistry_registerCapability ::
  "string \<Rightarrow> string \<Rightarrow> CapabilityRegistry \<Rightarrow> CapabilityRegistry" where
  "CapabilityRegistry_registerCapability modelId capabilityId r =
     r\<lparr>providersOf :=
        Map_set capabilityId
          (case Map_get (providersOf r) capabilityId of
             None \<Rightarrow> [modelId]
           | Some ms \<Rightarrow> if modelId \<in> set ms then ms else ms @ [modelId])
          (providersOf r)\<rparr>"

text \<open>
  Modelled from the spec: \<open>CapabilityRegistry.hasCapability\<close> holds of the capabilities
  that some provider was registered for.
\<close>

definition CapabilityRegistry_hasCapability :: "CapabilityRegistry \<Rightarrow> string \<Rightarrow> bool" where
  "CapabilityRegistry_hasCapability r capabilityId \<longleftrightarrow> Map_has (providersOf r) capabilityId"

text \<open>Modelled from the spec: the default provider of a capability, if one is set.\<close>

definition getDefaultModelForCapability :: "CapabilityRegistry \<Rightarrow> string \<Rightarrow> string option" where
  "getDefaultModelForCapability r capabilityId = Map_get (defaultModels r) capabilityId"

text \<open>Modelled from the spec: setting the default provider of a capability.\<close>

definition setDefaultModelForCapability ::
  "string \<Rightarrow> string \<Rightarrow> CapabilityRegistry \<Rightarrow> CapabilityRegistry" where
  "setDefaultModelForCapability capabilityId modelId r =
     r\<lparr>defaultModels := Map_set capabilityId modelId (defaultModels r)\<rparr>"

record ModelManager =
  models :: "(string \<times> ModelProvider) list"
  capabilityRegistry :: CapabilityRegistry
  capabilityAliases :: "(string \<times> string) list"

definition new_ModelManager :: ModelManager where
  "new_ModelManager =
     \<lparr>models = [], capabilityRegistry = new_CapabilityRegistry, capabilityAliases = []\<rparr>"

text \<open>
  The loop body of \<open>registerModelProvider\<close>. \<open>!getDefaultModelForCapability(id)\<close> is
  true of \<open>undefined\<close> and of the empty string.
\<close>

definition registerProvidedCapability ::
  "string \<Rightarrow> string \<Rightarrow> CapabilityRegistry \<Rightarrow> CapabilityRegistry" where
  "registerProvidedCapability modelId capabilityId r =
     (let r' = CapabilityRegistry_registerCapability modelId capabilityId r in
      case getDefaultModelForCapability r' capabilityId of
        None \<Rightarrow> setDefaultModelForCapability capabilityId modelId r'
      | Some d \<Rightarrow> if d = [] then setDefaultModelForCapability capabilityId modelId r' else r')"

definition registerModelProvider :: "ModelProvider \<Rightarrow> ModelManager \<Rightarrow> ModelManager" where
  "registerModelProvider modelProvider m =
     m\<lparr>models := Map_set (provider_id modelProvider) modelProvider (models m),
       capabilityRegistry :=
         fold (registerProvidedCapability (provider_id modelProvider))
           (getCapabilities modelProvider) (capabilityRegistry m)\<rparr>"

definition registerModelProviders :: "ModelProvider list \<Rightarrow> ModelManager \<Rightarrow> ModelManager" where
  "registerModelProviders modelProviders m = fold registerModelProvider modelProviders m"

text \<open>
  \<open>this.capabilityAliases.get(capabilityId) || capabilityId\<close>: an alias whose target is
  the empty string is falsy and resolves to the identifier itself.
\<close>

definition resolveCapability :: "ModelManager \<Rightarrow> string \<Rightarrow> string" where
  "resolveCapability m capabilityId =
     (case Map_get (capabilityAliases m) capabilityId of
        None \<Rightarrow> capabilityId
      | Some resolvedId \<Rightarrow> if resolvedId = [] then capabilityId else resolvedId)"

definition hasCapability :: "ModelManager \<Rightarrow> string \<Rightarrow> bool" where
  "hasCapability m capabilityId \<longleftrightarrow>
     CapabilityRegistry_hasCapability (capabilityRegistry m) (resolveCapability m capabilityId)"

text \<open>
  \<open>registerCapabilityAliases\<close>: the inner loop over one group, with the canonical id
  already chosen, and the outer loop over the groups. A throw leaves the loops at once.
\<close>

fun registerAliasesTo :: "string \<Rightarrow> string list \<Rightarrow> ModelManager \<Rightarrow> error + ModelManager" where
  "registerAliasesTo canonicalId [] m = Inr m"
| "registerAliasesTo canonicalId (alias # rest) m =
     (if alias \<noteq> canonicalId then
        (if \<not> CapabilityRegistry_hasCapability (capabilityRegistry m) canonicalId
         then Inl (Error (''Capability '' @ canonicalId @ '' not found''))
         else registerAliasesTo canonicalId rest
                (m\<lparr>capabilityAliases := Map_set alias canonicalId (capabilityAliases m)\<rparr>))
      else registerAliasesTo canonicalId rest m)"

text \<open>
  \<open>aliasGroup.find((id) => this.hasCapability(id)) ?? aliasGroup[0]\<close>; it is
  \<open>undefined\<close> only for an empty group, whose loop has no iteration.
\<close>

definition canonicalIdOf :: "ModelManager \<Rightarrow> string list \<Rightarrow> string option" where
  "canonicalIdOf m aliasGroup =
     (case find (hasCapability m) aliasGroup of
        Some c \<Rightarrow> Some c
      | None \<Rightarrow> (case aliasGroup of [] \<Rightarrow> None | first # _ \<Rightarrow> Some first))"

fun registerCapabilityAliases :: "string list list \<Rightarrow> ModelManager \<Rightarrow> error + ModelManager" where
  "registerCapabilityAliases [] m = Inr m"
| "registerCapabilityAliases (aliasGroup # groups) m =
     (case canonicalIdOf m aliasGroup of
        None \<Rightarrow> registerCapabilityAliases groups m
      | Some canonicalId \<Rightarrow>
          (case registerAliasesTo canonicalId aliasGroup m of
             Inl e \<Rightarrow> Inl e
           | Inr m' \<Rightarrow> registerCapabilityAliases groups m'))"

text \<open>
  \<open>ModelManager.init\<close> and \<open>ModelManager.checkHealth\<close> start the calls of all providers
  and await them with \<open>Promise.all\<close>. The \<open>catch\<close> around a provider's \<open>init()\<close> only
  logs what was thrown; the one around a provider's \<open>checkHealth()\<close> logs and throws it
  again. Neither changes the moment at which the call settles.
\<close>

definition ModelManager_init :: "ModelManager \<Rightarrow> error + unit list" where
  "ModelManager_init m =
     Promise_all (map (\<lambda>modelProvider.
                         apsnd (\<lambda>outcome. try_catch outcome (\<lambda>err. Inr ()))
                           (provider_init modelProvider))
                      (Map_values (models m)))"

definition ModelManager_checkHealth :: "ModelManager \<Rightarrow> error + unit list" where
  "ModelManager_checkHealth m =
     Promise_all (map (\<lambda>model.
                         apsnd (\<lambda>outcome. try_catch outcome (\<lambda>err. Inl err))
                           (provider_checkHealth model))
                      (Map_values (models m)))"

section \<open>The plugin registry\<close>

record PluginResult =
  success :: bool
  data :: "jsobject option"
  error :: "string option"

text \<open>
  A plugin as the core sees it; an executor is listed by its name and description.
  \<open>execute\<close> runs the executor of an action on the live
  context: it may change the context chain (through \<open>pushToContextChain\<close> or directly)
  before it resolves with a result or throws. Its first argument counts the calls made
  to collaborators so far, so that two calls on equal arguments may differ. The
  \<open>init()\<close> of a plugin is given by the moment at which it settles and its outcome.
\<close>

record Plugin =
  plugin_id :: string
  plugin_name :: string
  plugin_description :: string
  requiredCapabilities :: "string list"
  executors :: "(string \<times> string) list"
  plugin_init :: "unit awaited"
  execute :: "nat \<Rightarrow> string \<Rightarrow> jsobject list \<Rightarrow> jsobject list \<times> (error + PluginResult)"

type_synonym PluginRegistry = "(string \<times> Plugin) list"

fun join :: "string \<Rightarrow> string list \<Rightarrow> string" where
  "join sep [] = []"
| "join sep [x] = x"
| "join sep (x # y # ys) = x @ sep @ join sep (y # ys)"

definition registerPlugin :: "Plugin \<Rightarrow> PluginRegistry \<Rightarrow> error + PluginRegistry" where
  "registerPlugin plugin plugins =
     (if plugin_id plugin = [] then Inl (Error ''Plugin ID cannot be empty'')
      else if Map_has plugins (plugin_id plugin) then
        Inl (Error (''Plugin ID collision: '' @ plugin_id plugin @ '' is already registered.'' @
                    [CHR 0x0A] @ ''Currently registered plugins: '' @
                    join '', '' (Map_keys plugins)))
      else Inr (Map_set (plugin_id plugin) plugin plugins))"

fun registerPlugins :: "Plugin list \<Rightarrow> PluginRegistry \<Rightarrow> error + PluginRegistry" where
  "registerPlugins [] plugins = Inr plugins"
| "registerPlugins (plugin # rest) plugins =
     (case registerPlugin plugin plugins of
        Inl e \<Rightarrow> Inl e
      | Inr plugins' \<Rightarrow> registerPlugins rest plugins')"

text \<open>
  \<open>PluginRegistry.getPlugin\<close> is declared to return \<open>Plugin | undefined\<close>, and it throws
  when the id is not registered.
\<close>

definition getPlugin :: "PluginRegistry \<Rightarrow> string \<Rightarrow> error + Plugin option" where
  "getPlugin plugins ident =
     (case Map_get plugins ident of
        None \<Rightarrow>
          Inl (Error (''Plugin ID '' @ ident @ '' not found. Available plugins: '' @
                      join '', '' (Map_keys plugins)))
      | Some plugin \<Rightarrow> Inr (Some plugin))"

definition getAllPlugins :: "PluginRegistry \<Rightarrow> Plugin list" where
  "getAllPlugins plugins = Map_values plugins"

definition PluginRegistry_init :: "PluginRegistry \<Rightarrow> error + unit list" where
  "PluginRegistry_init plugins = Promise_all (map plugin_init (Map_values plugins))"

section \<open>Pipelines, contexts and the runtime state\<close>

record PipelineStep =
  pluginId :: string
  action :: string

record PipelineModification =
  shouldModify :: bool
  explanation :: string
  modifiedSteps :: "PipelineStep list option"

text \<open>
  \<open>AgentContext\<close>. Its \<open>eventQueue\<close> field is the one queue handle of the runtime and
  its \<open>platformContext\<close> is opaque to the core; the core reads and writes the chain.
\<close>

record AgentContext =
  contextChain :: "jsobject list"
  conversationId :: "string option"

text \<open>
  Modelled from the spec: the class \<open>MemoryManager\<close> is not among the source files. Its
  \<open>init()\<close> and \<open>checkHealth()\<close> are those of the one memory provider it wraps.
\<close>

record MemoryProvider =
  memory_id :: string
  memory_init :: "error + unit"
  memory_checkHealth :: "error + unit"

text \<open>
  The fields of \<open>Runtime\<close>: the three managers, and the mutable state that the evaluation
  loop and the plugins share.
\<close>

record Runtime =
  modelManager :: ModelManager
  memoryManager :: MemoryProvider
  pluginRegistry :: PluginRegistry
  isRunning :: bool
  eventQueue :: "AgentContext list"
  currentContext :: "AgentContext option"

subsection \<open>The context chain\<close>

definition samePluginAction :: "jsobject \<Rightarrow> jsobject \<Rightarrow> bool" where
  "samePluginAction item existing \<longleftrightarrow>
     getField existing ''pluginId'' = getField item ''pluginId'' \<and>
     getField existing ''action'' = getField item ''action''"

text \<open>
  \<open>Runtime.pushToContextChain\<close>. The chain written to is the one of the current context,
  the same object the evaluation loop holds while it processes the event.
\<close>

definition pushToContextChain :: "jsobject \<Rightarrow> Runtime \<Rightarrow> Runtime" where
  "pushToContextChain item rt =
     (case currentContext rt of
        None \<Rightarrow> rt
      | Some ctx \<Rightarrow>
          (case findIndex (samePluginAction item) (contextChain ctx) of
             Some existingIndex \<Rightarrow>
               rt\<lparr>currentContext := Some (ctx\<lparr>contextChain :=
                    (contextChain ctx)[existingIndex :=
                       spread (contextChain ctx ! existingIndex) item]\<rparr>)\<rparr>
           | None \<Rightarrow>
               rt\<lparr>currentContext := Some (ctx\<lparr>contextChain := contextChain ctx @ [item]\<rparr>)\<rparr>))"

subsection \<open>Splicing a modified continuation\<close>

text \<open>
  The splice of \<open>Runtime.executePipeline\<close>: \<open>modification.modifiedSteps\<close> is tested for
  truthiness, and an array, even an empty one, is truthy; only \<open>null\<close> is not.
  \<open>slice(0, n)\<close> is \<open>take n\<close>, also where \<open>n\<close> exceeds the length.
\<close>

definition applyModification ::
  "PipelineStep list \<Rightarrow> nat \<Rightarrow> PipelineModification \<Rightarrow> PipelineStep list" where
  "applyModification currentPipeline currentStepIndex modification =
     (case modifiedSteps modification of
        Some steps \<Rightarrow>
          (if shouldModify modification
           then take (currentStepIndex + 1) currentPipeline @ steps
           else currentPipeline)
      | None \<Rightarrow> currentPipeline)"

section \<open>Collaborators outside the core\<close>

text \<open>
  A zod schema, as far as the core uses one: its rendering for the prompt
  (\<open>formatZodSchema\<close>) and \<open>schema.parse\<close>, which returns the validated value or throws.
\<close>

record 'v zodSchema =
  formatZodSchema :: string
  parse :: "jsval \<Rightarrow> error + 'v"

type_synonym PluginDescription = "string \<times> string \<times> string \<times> (string \<times> string) list"

text \<open>
  What the core calls and does not define: the text-generation capability behind
  \<open>modelManager.executeCapability\<close>, the prompt templates and JSON helpers of
  \<open>pipeline/templates\<close>, \<open>JSON.parse\<close> and \<open>JSON.stringify\<close>, the two pipeline schemas,
  \<open>getUserInput\<close>, the memory manager's calls and the clock. They are parameters of the
  embedding. A call that reaches the outside world takes the number of such calls made
  before it as its first argument, so that the model and the stores may answer equal
  requests differently; it rejects with \<open>Inl\<close>.
\<close>

record Collaborators =
  textGeneration :: "nat \<Rightarrow> string \<Rightarrow> error + string"
  generateObjectTemplate :: "string \<Rightarrow> string \<Rightarrow> string"
  generateRetryTemplate :: "string \<Rightarrow> string \<Rightarrow> string \<Rightarrow> string \<Rightarrow> string"
  extractJson :: "string \<Rightarrow> error + string"
  cleanJsonString :: "string \<Rightarrow> error + string"
  JSON_parse :: "string \<Rightarrow> error + jsval"
  JSON_stringify :: "jsobject \<Rightarrow> string"
  generatePipelineTemplate ::
    "jsobject list \<Rightarrow> PluginDescription list \<Rightarrow> jsval \<times> jsval \<times> jsval list \<Rightarrow> string"
  generatePipelineModificationTemplate ::
    "jsobject list \<Rightarrow> PipelineStep \<Rightarrow> PipelineStep list \<Rightarrow> PluginDescription list \<Rightarrow> string"
  PipelineSchema :: "PipelineStep list zodSchema"
  PipelineModificationSchema :: "PipelineModification zodSchema"
  getUserInput :: "jsobject list \<Rightarrow> jsobject option"
  getRecentConversationHistory :: "nat \<Rightarrow> jsval \<Rightarrow> jsval \<Rightarrow> error + jsval list"
  storeUserInteraction :: "nat \<Rightarrow> jsobject \<Rightarrow> error + unit"
  storeAssistantInteraction ::
    "nat \<Rightarrow> jsval \<Rightarrow> jsval \<Rightarrow> jsval \<Rightarrow> jsobject list \<Rightarrow> error + unit"
  dateNow :: "nat \<Rightarrow> nat"

section \<open>JavaScript numbers\<close>

text \<open>
  The retry bound \<open>maxRetries\<close> has the type \<open>number\<close>: it is a finite number, which
  need not be whole or positive, or \<open>NaN\<close>, or one of the two infinities. A finite number
  is given exactly, as a rational. The rounding of doubles is left out: it plays no
  part while the loop counter, which starts at 0 and grows by one, stays below \<open>2^53\<close>.
\<close>

datatype number = Finite rat | NaN | PosInfinity | NegInfinity

text \<open>\<open>a < b\<close>; every comparison with \<open>NaN\<close> is false.\<close>

fun number_less :: "number \<Rightarrow> number \<Rightarrow> bool" where
  "number_less (Finite x) (Finite y) = (x < y)"
| "number_less (Finite x) PosInfinity = True"
| "number_less NegInfinity (Finite y) = True"
| "number_less NegInfinity PosInfinity = True"
| "number_less a b = False"

text \<open>\<open>a - b\<close>.\<close>

fun number_minus :: "number \<Rightarrow> number \<Rightarrow> number" where
  "number_minus (Finite x) (Finite y) = Finite (x - y)"
| "number_minus NaN b = NaN"
| "number_minus a NaN = NaN"
| "number_minus PosInfinity PosInfinity = NaN"
| "number_minus NegInfinity NegInfinity = NaN"
| "number_minus PosInfinity b = PosInfinity"
| "number_minus NegInfinity b = NegInfinity"
| "number_minus (Finite x) PosInfinity = NegInfinity"
| "number_minus (Finite x) NegInfinity = PosInfinity"

text \<open>\<open>a === b\<close> on numbers; \<open>NaN\<close> is equal to nothing, itself included.\<close>

fun strictEquals :: "number \<Rightarrow> number \<Rightarrow> bool" where
  "strictEquals NaN b = False"
| "strictEquals a NaN = False"
| "strictEquals a b = (a = b)"

text \<open>Truthiness of a number: \<open>0\<close> and \<open>NaN\<close> are falsy.\<close>

fun number_truthy :: "number \<Rightarrow> bool" where
  "number_truthy (Finite x) = (x \<noteq> 0)"
| "number_truthy NaN = False"
| "number_truthy PosInfinity = True"
| "number_truthy NegInfinity = True"

text \<open>The value of a loop counter.\<close>

definition number_of_nat :: "nat \<Rightarrow> number" where
  "number_of_nat n = Finite (of_nat n)"

section \<open>Structured object retrieval\<close>

text \<open>
  How a call of \<open>getObject\<close> ends: it returns the parsed value, it throws, or (the
  method of the class only) control leaves the loop and the function ends without a
  \<open>return\<close>, which resolves to \<open>undefined\<close>.
\<close>

datatype 'v completion = Returned 'v | Threw error | ReturnedUndefined

text \<open>What one pass through the loop body leaves: the call is over, or the next
  attempt starts with the response and the error text recorded so far.\<close>

datatype ('v, 's) attempt = Finished "'v completion" | Retry 's

definition isSpace :: "char \<Rightarrow> bool" where
  "isSpace c \<longleftrightarrow> c \<in> set [CHR '' '', CHR 0x09, CHR 0x0A, CHR 0x0B, CHR 0x0C, CHR 0x0D]"

definition trim :: "string \<Rightarrow> string" where
  "trim s = rev (dropWhile isSpace (rev (dropWhile isSpace s)))"

subsection \<open>The method \<open>Runtime.getObject\<close>\<close>

text \<open>
  \<open>extractJson(lastResponse).trim()\<close>, \<open>JSON.parse\<close> and \<open>schema.parse\<close>, the body of the
  second \<open>try\<close>.
\<close>

definition decodeResponse :: "Collaborators \<Rightarrow> 'v zodSchema \<Rightarrow> string \<Rightarrow> error + 'v" where
  "decodeResponse C schema lastResponse =
     (case extractJson C lastResponse of
        Inl e \<Rightarrow> Inl e
      | Inr extracted \<Rightarrow>
          (case JSON_parse C (trim extracted) of
             Inl e \<Rightarrow> Inl e
           | Inr json \<Rightarrow> parse schema json))"

text \<open>
  The second \<open>try\<close> of the loop body with its \<open>catch\<close>. It runs on \<open>lastResponse\<close>
  whatever the first \<open>try\<close> did, short of throwing. The test for the last attempt is
  \<open>attempt === MAX_RETRIES - 1\<close>.
\<close>

definition Runtime_getObject_parse ::
  "Collaborators \<Rightarrow> 'v zodSchema \<Rightarrow> number \<Rightarrow> nat \<Rightarrow> string \<Rightarrow> string \<Rightarrow> ('v, string \<times> string) attempt" where
  "Runtime_getObject_parse C schema MAX_RETRIES attempt lastResponse lastError =
     (case decodeResponse C schema lastResponse of
        Inr result \<Rightarrow> Finished (Returned result)
      | Inl err \<Rightarrow>
          if strictEquals (number_of_nat attempt) (number_minus MAX_RETRIES (Finite 1))
          then Finished (Threw err)
          else Retry (lastResponse, message err))"

text \<open>
  The loop body. When the model call throws on an attempt that is not the last, the
  first \<open>catch\<close> records the message and the body goes on to parse the response of the
  attempt before (the empty string on the first attempt).
\<close>

definition Runtime_getObject_attempt ::
  "Collaborators \<Rightarrow> 'v zodSchema \<Rightarrow> string \<Rightarrow> number \<Rightarrow> nat \<Rightarrow> nat \<Rightarrow> string \<Rightarrow> string \<Rightarrow>
     ('v, string \<times> string) attempt" where
  "Runtime_getObject_attempt C schema prompt MAX_RETRIES t attempt lastResponse lastError =
     (case textGeneration C (t + attempt)
             (if attempt > 0
              then generateRetryTemplate C (formatZodSchema schema) prompt lastResponse lastError
              else generateObjectTemplate C (formatZodSchema schema) prompt) of
        Inl err \<Rightarrow>
          if strictEquals (number_of_nat attempt) (number_minus MAX_RETRIES (Finite 1))
          then Finished (Threw err)
          else Runtime_getObject_parse C schema MAX_RETRIES attempt lastResponse (message err)
      | Inr response \<Rightarrow>
          Runtime_getObject_parse C schema MAX_RETRIES attempt response lastError)"

text \<open>
  The \<open>for\<close> loop, \<open>for (let attempt = 0; attempt < MAX_RETRIES; attempt++)\<close>. The
  second component of the result is the number of attempts made, that is, of passes
  through the loop body. Nothing bounds the loop when \<open>MAX_RETRIES\<close> is \<open>Infinity\<close>: a
  call that goes from attempt to attempt without end never settles, and its value is
  \<open>None\<close>.
\<close>

partial_function (option) Runtime_getObject_loop ::
  "Collaborators \<Rightarrow> 'v zodSchema \<Rightarrow> string \<Rightarrow> number \<Rightarrow> nat \<Rightarrow> nat \<Rightarrow> string \<Rightarrow> string \<Rightarrow>
     ('v completion \<times> nat) option" where
  "Runtime_getObject_loop C schema prompt MAX_RETRIES t attempt lastResponse lastError =
     (if number_less (number_of_nat attempt) MAX_RETRIES then
        (case Runtime_getObject_attempt C schema prompt MAX_RETRIES t attempt lastResponse lastError of
           Finished c \<Rightarrow> Some (c, attempt + 1)
         | Retry (lastResponse', lastError') \<Rightarrow>
             Runtime_getObject_loop C schema prompt MAX_RETRIES t (attempt + 1)
               lastResponse' lastError')
      else Some (ReturnedUndefined, attempt))"

text \<open>
  \<open>config?.maxRetries || 3\<close>: an absent \<open>maxRetries\<close> gives 3, and so does every falsy
  one, which for a number is \<open>0\<close> or \<open>NaN\<close>. The argument \<open>t\<close> is the number of
  collaborator calls made before this one.
\<close>

definition Runtime_getObject ::
  "Collaborators \<Rightarrow> 'v zodSchema \<Rightarrow> string \<Rightarrow> number option \<Rightarrow> nat \<Rightarrow>
     ('v completion \<times> nat) option" where
  "Runtime_getObject C schema prompt maxRetries t =
     (let MAX_RETRIES =
            (case maxRetries of
               None \<Rightarrow> Finite 3
             | Some n \<Rightarrow> if number_truthy n then n else Finite 3)
      in Runtime_getObject_loop C schema prompt MAX_RETRIES t 0 [] [])"

subsection \<open>The function \<open>getObject\<close>\<close>





section \<open>Pipeline generation and modification\<close>

text \<open>JavaScript truthiness, and \<open>value || fallback\<close>.\<close>

fun truthy :: "jsval \<Rightarrow> bool" where
  "truthy JUndefined = False"
| "truthy (JStr s) = (s \<noteq> [])"
| "truthy (JNum n) = (n \<noteq> 0)"
| "truthy (JBool b) = b"
| "truthy JNull = False"
| "truthy (JArr xs) = True"
| "truthy (JObj kvs) = True"

definition orElse :: "jsval \<Rightarrow> jsval \<Rightarrow> jsval" where
  "orElse v fallback = (if truthy v then v else fallback)"

definition availablePluginsOf :: "PluginRegistry \<Rightarrow> PluginDescription list" where
  "availablePluginsOf registry =
     map (\<lambda>plugin. (plugin_id plugin, plugin_name plugin, plugin_description plugin,
                     executors plugin))
         (getAllPlugins registry)"

text \<open>
  What a \<open>try\<close> block around \<open>await this.getObject(...)\<close> sees when it goes on to read
  a property of the result: the value, the thrown error, or the \<open>TypeError\<close> of reading
  a property of \<open>undefined\<close>.
\<close>

definition awaitObject :: "'v completion \<Rightarrow> error + 'v" where
  "awaitObject c =
     (case c of
        Returned v \<Rightarrow> Inr v
      | Threw e \<Rightarrow> Inl e
      | ReturnedUndefined \<Rightarrow> Inl (Error ''TypeError: Cannot read properties of undefined''))"

text \<open>
  The statements of \<open>Runtime.evaluatePipeline\<close> before its \<open>try\<close> block: the
  conversation history stays empty without user input and is awaited from the memory
  manager otherwise. Nothing catches a rejection of that call.
\<close>

definition fetchConversationHistory ::
  "Collaborators \<Rightarrow> jsobject option \<Rightarrow> jsval \<Rightarrow> nat \<Rightarrow> (error + jsval list) \<times> nat" where
  "fetchConversationHistory C userInput platform t =
     (case userInput of
        None \<Rightarrow> (Inr [], t)
      | Some u \<Rightarrow> (getRecentConversationHistory C t (getField u ''user'') platform, t + 1))"

text \<open>
  The \<open>try\<close> block of \<open>Runtime.evaluatePipeline\<close> with its \<open>catch\<close>: \<open>getObject\<close> is
  called on the rendered template with a \<open>config\<close> that has no \<open>maxRetries\<close>, so that its
  loop is bounded by 3 and the call settles; the steps of its result are mapped for the
  log, and the \<open>catch\<close> returns the empty pipeline.
\<close>

definition generatePipeline ::
  "Collaborators \<Rightarrow> string \<Rightarrow> nat \<Rightarrow> (error + PipelineStep list) \<times> nat" where
  "generatePipeline C template t =
     (case Runtime_getObject C (PipelineSchema C) template None t of
        Some (c, n) \<Rightarrow> (try_catch (awaitObject c) (\<lambda>err. Inr []), t + n))"

text \<open>
  \<open>userInput?.pluginId || "unknown"\<close> and \<open>userInput?.rawMessage || ""\<close>.
\<close>

definition platformOf :: "Collaborators \<Rightarrow> AgentContext \<Rightarrow> jsval" where
  "platformOf C ctx =
     orElse (case getUserInput C (contextChain ctx) of
               None \<Rightarrow> JUndefined
             | Some u \<Rightarrow> getField u ''pluginId'')
       (JStr ''unknown'')"

definition messageOf :: "Collaborators \<Rightarrow> AgentContext \<Rightarrow> jsval" where
  "messageOf C ctx =
     orElse (case getUserInput C (contextChain ctx) of
               None \<Rightarrow> JUndefined
             | Some u \<Rightarrow> getField u ''rawMessage'')
       (JStr [])"

text \<open>
  \<open>Runtime.evaluatePipeline\<close>. The result carries the number of collaborator calls made
  so far.
\<close>

definition evaluatePipeline ::
  "Collaborators \<Rightarrow> PluginRegistry \<Rightarrow> AgentContext \<Rightarrow> nat \<Rightarrow> (error + PipelineStep list) \<times> nat" where
  "evaluatePipeline C registry ctx t =
     (case fetchConversationHistory C (getUserInput C (contextChain ctx)) (platformOf C ctx) t of
        (Inl e, t1) \<Rightarrow> (Inl e, t1)
      | (Inr conversationHistory, t1) \<Rightarrow>
          generatePipeline C
            (generatePipelineTemplate C (contextChain ctx) (availablePluginsOf registry)
               (platformOf C ctx, messageOf C ctx, conversationHistory))
            t1)"

text \<open>
  \<open>Runtime.evaluatePipelineModification\<close>: the template is rendered first, the \<open>try\<close>
  block calls \<open>getObject\<close>, again without \<open>maxRetries\<close>, and reads the fields of the
  result for the log, and the \<open>catch\<close> returns the modification that changes nothing.
\<close>

definition evaluatePipelineModification ::
  "Collaborators \<Rightarrow> jsobject list \<Rightarrow> PipelineStep \<Rightarrow> PipelineStep list \<Rightarrow> PluginDescription list \<Rightarrow>
     nat \<Rightarrow> (error + PipelineModification) \<times> nat" where
  "evaluatePipelineModification C chain currentStep pipeline availablePlugins t =
     (case Runtime_getObject C (PipelineModificationSchema C)
             (generatePipelineModificationTemplate C chain currentStep pipeline availablePlugins)
             None t of
        Some (c, n) \<Rightarrow>
          (try_catch (awaitObject c)
             (\<lambda>err. Inr \<lparr>shouldModify = False,
                         explanation = ''Error evaluating pipeline modification'',
                         modifiedSteps = None\<rparr>),
           t + n))"

section \<open>Pipeline execution\<close>

definition digit_char :: "nat \<Rightarrow> char" where
  "digit_char d = char_of (48 + d)"

function string_of_nat :: "nat \<Rightarrow> string" where
  "string_of_nat n =
     (if n < 10 then [digit_char n] else string_of_nat (n div 10) @ [digit_char (n mod 10)])"
  by pat_completeness auto
termination
  by (relation "measure id") auto

declare string_of_nat.simps [simp del]

definition stepValue :: "PipelineStep \<Rightarrow> jsval" where
  "stepValue step = JObj [(''pluginId'', JStr (pluginId step)), (''action'', JStr (action step))]"

text \<open>
  The \<open>ErrorContextItem\<close> objects that \<open>executePipeline\<close> builds; \<open>now\<close> is \<open>Date.now()\<close>.
\<close>

definition errorContextItem ::
  "nat \<Rightarrow> string \<Rightarrow> string \<Rightarrow> string \<Rightarrow> PipelineStep option \<Rightarrow> jsobject" where
  "errorContextItem now plugin act msg failedStep =
     map_of ([(''id'', JStr (''error-'' @ string_of_nat now)),
              (''pluginId'', JStr plugin),
              (''type'', JStr ''error''),
              (''action'', JStr act),
              (''content'', JStr msg),
              (''timestamp'', JNum now),
              (''error'', JStr msg)] @
             (case failedStep of None \<Rightarrow> [] | Some step \<Rightarrow> [(''failedStep'', stepValue step)]))"

definition invalidStepItem :: "nat \<Rightarrow> jsobject" where
  "invalidStepItem now =
     errorContextItem now ''runtime'' ''invalid_step''
       ''Invalid step encountered in pipeline'' None"

definition pluginNotFoundItem :: "nat \<Rightarrow> PipelineStep \<Rightarrow> jsobject" where
  "pluginNotFoundItem now currentStep =
     errorContextItem now (pluginId currentStep) ''plugin_not_found''
       (''Plugin '' @ pluginId currentStep @ '' not found'') (Some currentStep)"

text \<open>\<open>result.error || "Unknown error"\<close>.\<close>

definition errorOrUnknown :: "string option \<Rightarrow> string" where
  "errorOrUnknown e = (case e of None \<Rightarrow> ''Unknown error'' | Some m \<Rightarrow> if m = [] then ''Unknown error'' else m)"

text \<open>The item pushed for a successful step: the fields of \<open>result.data\<close> are spread last.\<close>

definition resultContextItem :: "Collaborators \<Rightarrow> nat \<Rightarrow> PipelineStep \<Rightarrow> jsobject \<Rightarrow> jsobject" where
  "resultContextItem C now currentStep d =
     spread (map_of [(''id'', JStr (pluginId currentStep @ ''-'' @ string_of_nat now)),
                     (''pluginId'', JStr (pluginId currentStep)),
                     (''type'', JStr (action currentStep)),
                     (''action'', JStr (action currentStep)),
                     (''content'', JStr (JSON_stringify C d)),
                     (''timestamp'', JNum now)])
            d"

text \<open>
  The local state of \<open>executePipeline\<close>: the pipeline as spliced so far, the index of the
  step to run, the chain of the context being processed, the number of collaborator
  calls made, and the steps whose executor was invoked, in order.
\<close>

record PipelineRun =
  currentPipeline :: "PipelineStep list"
  currentStepIndex :: nat
  liveChain :: "jsobject list"
  calls :: nat
  executedSteps :: "PipelineStep list"

text \<open>
  The \<open>try\<close> block of one step with its \<open>catch\<close>, and the \<open>currentStepIndex++\<close> after it.
  \<open>result.data\<close> is tested for truthiness, and an object is truthy.
\<close>

definition executeStep ::
  "Collaborators \<Rightarrow> PluginRegistry \<Rightarrow> Plugin \<Rightarrow> PipelineStep \<Rightarrow> PipelineRun \<Rightarrow> PipelineRun" where
  "executeStep C registry plugin currentStep run =
     (case execute plugin (calls run) (action currentStep) (liveChain run) of
        (chain1, Inl err) \<Rightarrow>
          run\<lparr>liveChain := chain1 @ [errorContextItem (dateNow C (calls run + 1))
                                       (pluginId currentStep) (action currentStep) (message err)
                                       (Some currentStep)],
              calls := calls run + 1,
              executedSteps := executedSteps run @ [currentStep],
              currentStepIndex := currentStepIndex run + 1\<rparr>
      | (chain1, Inr result) \<Rightarrow>
          (let now = dateNow C (calls run + 1);
               chain2 =
                 (if \<not> success result then
                    chain1 @ [errorContextItem now (pluginId currentStep) (action currentStep)
                                (errorOrUnknown (error result)) (Some currentStep)]
                  else (case data result of
                          Some d \<Rightarrow> chain1 @ [resultContextItem C now currentStep d]
                        | None \<Rightarrow> chain1))
           in case evaluatePipelineModification C chain2 currentStep (currentPipeline run)
                     (availablePluginsOf registry) (calls run + 1) of
                (Inl err, t') \<Rightarrow>
                  run\<lparr>liveChain := chain2 @ [errorContextItem (dateNow C t')
                                               (pluginId currentStep) (action currentStep)
                                               (message err) (Some currentStep)],
                      calls := t',
                      executedSteps := executedSteps run @ [currentStep],
                      currentStepIndex := currentStepIndex run + 1\<rparr>
              | (Inr modification, t') \<Rightarrow>
                  run\<lparr>currentPipeline :=
                        applyModification (currentPipeline run) (currentStepIndex run) modification,
                      liveChain := chain2,
                      calls := t',
                      executedSteps := executedSteps run @ [currentStep],
                      currentStepIndex := currentStepIndex run + 1\<rparr>))"

text \<open>How a run of a loop that need not end stands after the steps allowed to it.\<close>

datatype status = Completed | Aborted error | Unfinished

text \<open>
  The \<open>while\<close> loop of \<open>executePipeline\<close>. A modification may lengthen the pipeline at
  every step, so the loop need not end: the first argument bounds the number of
  iterations and \<open>Unfinished\<close> says the bound was reached. \<open>currentPipeline[i]\<close> is
  \<open>undefined\<close> outside the array. \<open>getPlugin\<close> is called outside the \<open>try\<close> block of the
  step, so what it throws leaves the loop.
\<close>

fun executeSteps ::
  "Collaborators \<Rightarrow> PluginRegistry \<Rightarrow> nat \<Rightarrow> PipelineRun \<Rightarrow> status \<times> PipelineRun" where
  "executeSteps C registry 0 run =
     (if currentStepIndex run < length (currentPipeline run) then (Unfinished, run)
      else (Completed, run))"
| "executeSteps C registry (Suc fuel) run =
     (if currentStepIndex run < length (currentPipeline run) then
        (case (if currentStepIndex run < length (currentPipeline run)
               then Some (currentPipeline run ! currentStepIndex run) else None) of
           None \<Rightarrow>
             executeSteps C registry fuel
               (run\<lparr>liveChain := liveChain run @ [invalidStepItem (dateNow C (calls run))],
                    currentStepIndex := currentStepIndex run + 1\<rparr>)
         | Some currentStep \<Rightarrow>
             (case getPlugin registry (pluginId currentStep) of
                Inl err \<Rightarrow> (Aborted err, run)
              | Inr None \<Rightarrow>
                  executeSteps C registry fuel
                    (run\<lparr>liveChain := liveChain run @
                                        [pluginNotFoundItem (dateNow C (calls run)) currentStep],
                         currentStepIndex := currentStepIndex run + 1\<rparr>)
              | Inr (Some plugin) \<Rightarrow>
                  executeSteps C registry fuel (executeStep C registry plugin currentStep run)))
      else (Completed, run))"

text \<open>
  \<open>Runtime.executePipeline\<close>: the context becomes the current context, the loop runs on
  a copy of the pipeline, and the \<open>finally\<close> block clears the current context however
  the loop ends. While the loop runs, the current context and the context being
  processed are the same object, whose chain is \<open>liveChain\<close>.
\<close>

definition executePipeline ::
  "Collaborators \<Rightarrow> nat \<Rightarrow> PipelineStep list \<Rightarrow> AgentContext \<Rightarrow> nat \<Rightarrow> Runtime \<Rightarrow>
     status \<times> PipelineRun \<times> Runtime" where
  "executePipeline C fuel pipeline ctx t rt =
     (case executeSteps C (pluginRegistry rt) fuel
             \<lparr>currentPipeline = pipeline, currentStepIndex = 0, liveChain = contextChain ctx,
              calls = t, executedSteps = []\<rparr> of
        (st, run) \<Rightarrow>
          (st, run,
           if st = Unfinished
           then rt\<lparr>currentContext := Some (ctx\<lparr>contextChain := liveChain run\<rparr>)\<rparr>
           else rt\<lparr>currentContext := None\<rparr>))"

section \<open>The event queue and the evaluation loop\<close>

text \<open>\<open>Runtime.pushContext\<close>, and the \<open>this.eventQueue.push\<close> that ends \<open>queueInterface.push\<close>.\<close>

definition pushContext :: "AgentContext \<Rightarrow> Runtime \<Rightarrow> Runtime" where
  "pushContext ctx rt = rt\<lparr>eventQueue := eventQueue rt @ [ctx]\<rparr>"



text \<open>
  What the loop does, in order: it takes the context at the head of the queue, it runs
  the executor of a step of that event, it is done with the event. The number is the
  position of the event among those taken from the queue.
\<close>

datatype traceEvent =
    Dequeued nat AgentContext
  | StepExecuted nat PipelineStep
  | Settled nat

text \<open>
  The loop and what goes on around it: the runtime, the number of collaborator calls
  made, the number of times the loop has yielded to the producers, the number of events
  taken from the queue, and the trace.
\<close>

record LoopState =
  runtime :: Runtime
  ticks :: nat
  iteration :: nat
  served :: nat
  trace :: "traceEvent list"

text \<open>
  Triggers and executors push contexts and the application may call \<open>stop()\<close> while the
  loop awaits; as everywhere in the source, they use the queue only to push. The loop
  reads the queue and \<open>isRunning\<close> only at the top of an iteration, so what the
  producers did during an iteration is applied at its end:
  \<open>arrivals n\<close> are the contexts appended to the queue during iteration \<open>n\<close>, in the
  order of their \<open>eventQueue.push\<close>, and \<open>stopRequested n\<close> says that \<open>stop()\<close> was called.
\<close>

record Producers =
  arrivals :: "nat \<Rightarrow> AgentContext list"
  stopRequested :: "nat \<Rightarrow> bool"

definition awaitProducers :: "Producers \<Rightarrow> LoopState \<Rightarrow> LoopState" where
  "awaitProducers P st =
     st\<lparr>runtime :=
          (fold pushContext (arrivals P (iteration st)) (runtime st))
            \<lparr>isRunning := isRunning (runtime st) \<and> \<not> stopRequested P (iteration st)\<rparr>,
        iteration := iteration st + 1\<rparr>"

text \<open>The \<open>finally\<close> block of the loop body.\<close>

definition settle :: "nat \<Rightarrow> nat \<Rightarrow> LoopState \<Rightarrow> LoopState" where
  "settle k t st =
     st\<lparr>runtime := (runtime st)\<lparr>currentContext := None\<rparr>, ticks := t,
        trace := trace st @ [Settled k]\<rparr>"

text \<open>
  The body of the loop for a context taken from the queue. \<open>userInput.pluginId\<close> is read
  for the log before the \<open>try\<close> block, which throws a \<open>TypeError\<close> for a context without
  user input. Inside the \<open>try\<close> block the context becomes the current context, the
  pipeline is generated and executed, and the last entry of the chain is stored as the
  assistant's response; reading \<open>message\<close> of the last entry of an empty chain throws.
  Whatever is thrown is thrown again after the \<open>finally\<close> block.
\<close>

definition processEvent ::
  "Collaborators \<Rightarrow> nat \<Rightarrow> AgentContext \<Rightarrow> nat \<Rightarrow> LoopState \<Rightarrow> status \<times> LoopState" where
  "processEvent C fuel ctx k st =
     (case getUserInput C (contextChain ctx) of
        None \<Rightarrow>
          (Aborted (Error ''TypeError: Cannot read properties of undefined''),
           st\<lparr>trace := trace st @ [Settled k]\<rparr>)
      | Some userInput \<Rightarrow>
          (let rt = (runtime st)\<lparr>currentContext := Some ctx\<rparr> in
           case evaluatePipeline C (pluginRegistry rt) ctx (ticks st) of
             (Inl e, t1) \<Rightarrow> (Aborted e, settle k t1 (st\<lparr>runtime := rt\<rparr>))
           | (Inr pipeline, t1) \<Rightarrow>
               (case executePipeline C fuel pipeline ctx t1 rt of
                  (outcome, run, rt') \<Rightarrow>
                    (let st' = st\<lparr>runtime := rt', ticks := calls run,
                                  trace := trace st @ map (StepExecuted k) (executedSteps run)\<rparr>
                     in case outcome of
                          Unfinished \<Rightarrow> (Unfinished, st')
                        | Aborted e \<Rightarrow> (Aborted e, settle k (calls run) st')
                        | Completed \<Rightarrow>
                            (if liveChain run = [] then
                               (Aborted (Error ''TypeError: Cannot read properties of undefined''),
                                settle k (calls run) st')
                             else
                               (case storeAssistantInteraction C (calls run)
                                       (getField userInput ''user'')
                                       (getField userInput ''pluginId'')
                                       (getField (last (liveChain run)) ''message'')
                                       (liveChain run) of
                                  Inl e \<Rightarrow> (Aborted e, settle k (calls run + 1) st')
                                | Inr _ \<Rightarrow> (Completed, settle k (calls run + 1) st')))))))"

text \<open>
  \<open>Runtime.runEvaluationLoop\<close>, one run of it: \<open>start\<close> returns at once while
  \<open>isRunning\<close> holds. The loop runs while \<open>isRunning\<close> holds, so it need not
  end: the first argument bounds the number of iterations, and the steps of a pipeline
  within one, and \<open>Unfinished\<close> says the bound was reached. \<open>shift()\<close> takes the head of
  the queue; on an empty queue the loop sleeps and tries again. \<open>Completed\<close> is the
  normal exit of the loop, \<open>Aborted\<close> an error thrown out of it.
\<close>

fun runEvaluationLoop :: "Collaborators \<Rightarrow> Producers \<Rightarrow> nat \<Rightarrow> LoopState \<Rightarrow> status \<times> LoopState" where
  "runEvaluationLoop C P 0 st =
     (if isRunning (runtime st) then (Unfinished, st) else (Completed, st))"
| "runEvaluationLoop C P (Suc fuel) st =
     (if isRunning (runtime st) then
        (case eventQueue (runtime st) of
           [] \<Rightarrow> runEvaluationLoop C P fuel (awaitProducers P st)
         | ctx # rest \<Rightarrow>
             (case processEvent C fuel ctx (served st)
                     (st\<lparr>runtime := (runtime st)\<lparr>eventQueue := rest\<rparr>,
                         served := served st + 1,
                         trace := trace st @ [Dequeued (served st) ctx]\<rparr>) of
                (Completed, st') \<Rightarrow> runEvaluationLoop C P fuel (awaitProducers P st')
              | (Aborted e, st') \<Rightarrow> (Aborted e, st')
              | (Unfinished, st') \<Rightarrow> (Unfinished, st')))
      else (Completed, st))"

text \<open>The state in which \<open>Runtime.start\<close> enters the loop.\<close>

definition startLoop :: "Runtime \<Rightarrow> LoopState" where
  "startLoop rt =
     \<lparr>runtime = rt\<lparr>isRunning := True\<rparr>, ticks = 0, iteration = 0, served = 0, trace = []\<rparr>"





section \<open>Startup\<close>

definition TEXT_GENERATION_CAPABILITY :: string where
  "TEXT_GENERATION_CAPABILITY = ''text-generation''"

definition REQUIRED_CAPABILITIES :: "string list" where
  "REQUIRED_CAPABILITIES = [TEXT_GENERATION_CAPABILITY]"

text \<open>The two validation loops of \<open>Runtime.init\<close>; each throws at the first capability
  that the model manager does not have.\<close>

fun checkRequiredCapabilities :: "ModelManager \<Rightarrow> string list \<Rightarrow> error + unit" where
  "checkRequiredCapabilities m [] = Inr ()"
| "checkRequiredCapabilities m (capability # rest) =
     (if \<not> hasCapability m capability
      then Inl (Error (capability @
             '' capability by a model provider is required for core runtime operations''))
      else checkRequiredCapabilities m rest)"

fun checkPluginCapabilities :: "ModelManager \<Rightarrow> string \<Rightarrow> string list \<Rightarrow> error + unit" where
  "checkPluginCapabilities m ident [] = Inr ()"
| "checkPluginCapabilities m ident (capability # rest) =
     (if \<not> hasCapability m capability
      then Inl (Error (''plugin '' @ ident @ '' specified a required capability '' @
                       capability @ '' that is not available''))
      else checkPluginCapabilities m ident rest)"

fun checkPluginsCapabilities :: "ModelManager \<Rightarrow> Plugin list \<Rightarrow> error + unit" where
  "checkPluginsCapabilities m [] = Inr ()"
| "checkPluginsCapabilities m (plugin # rest) =
     (case checkPluginCapabilities m (plugin_id plugin) (requiredCapabilities plugin) of
        Inl e \<Rightarrow> Inl e
      | Inr _ \<Rightarrow> checkPluginsCapabilities m rest)"

text \<open>
  \<open>Runtime.init\<close>, in the order of the source: the model manager is built and its
  aliases registered, its providers are initialised and health-checked, the runtime's
  own required capabilities are validated, the memory manager is initialised and
  health-checked, the plugins are registered and initialised, their required
  capabilities are validated, and only then is the \<open>Runtime\<close> constructed. The optional
  start-up delay and the logger configuration change no value and are left out.
\<close>

definition buildModelManager :: "ModelProvider list \<Rightarrow> string list list \<Rightarrow> error + ModelManager" where
  "buildModelManager modelProviders aliases =
     registerCapabilityAliases aliases (registerModelProviders modelProviders new_ModelManager)"

definition Runtime_init ::
  "ModelProvider list \<Rightarrow> MemoryProvider \<Rightarrow> Plugin list \<Rightarrow> string list list \<Rightarrow> error + Runtime" where
  "Runtime_init modelProviders memoryProvider plugins aliases =
     (case buildModelManager modelProviders aliases of
        Inl e \<Rightarrow> Inl e
      | Inr mm \<Rightarrow>
     (case ModelManager_init mm of
        Inl e \<Rightarrow> Inl e
      | Inr _ \<Rightarrow>
     (case ModelManager_checkHealth mm of
        Inl e \<Rightarrow> Inl e
      | Inr _ \<Rightarrow>
     (case checkRequiredCapabilities mm REQUIRED_CAPABILITIES of
        Inl e \<Rightarrow> Inl e
      | Inr _ \<Rightarrow>
     (case memory_init memoryProvider of
        Inl e \<Rightarrow> Inl e
      | Inr _ \<Rightarrow>
     (case memory_checkHealth memoryProvider of
        Inl e \<Rightarrow> Inl e
      | Inr _ \<Rightarrow>
     (case registerPlugins plugins [] of
        Inl e \<Rightarrow> Inl e
      | Inr registry \<Rightarrow>
     (case PluginRegistry_init registry of
        Inl e \<Rightarrow> Inl e
      | Inr _ \<Rightarrow>
     (case checkPluginsCapabilities mm (getAllPlugins registry) of
        Inl e \<Rightarrow> Inl e
      | Inr _ \<Rightarrow>
          Inr \<lparr>modelManager = mm, memoryManager = memoryProvider, pluginRegistry = registry,
               isRunning = False, eventQueue = [], currentContext = None\<rparr>)))))))))"

section \<open>Sample values\<close>

text \<open>Concrete providers, plugins, items and runtimes on which the theorems are run.\<close>

definition sampleItem :: "string \<Rightarrow> string \<Rightarrow> string \<Rightarrow> jsobject" where
  "sampleItem plugin act txt =
     map_of [(''id'', JStr (plugin @ ''-1'')), (''pluginId'', JStr plugin), (''type'', JStr act),
             (''action'', JStr act), (''content'', JStr txt), (''timestamp'', JNum 1)]"

definition sampleContext :: AgentContext where
  "sampleContext =
     \<lparr>contextChain = [sampleItem ''telegram'' ''receive_message'' ''what time is it?'',
                       sampleItem ''time'' ''get_current_time'' ''10:00''],
      conversationId = Some ''c1''\<rparr>"

definition sampleProvider :: "string \<Rightarrow> string list \<Rightarrow> ModelProvider" where
  "sampleProvider ident caps =
     \<lparr>provider_id = ident, getCapabilities = caps,
      provider_init = (0, Inl (Error ''init failed'')), provider_checkHealth = (0, Inr ())\<rparr>"

text \<open>A provider whose \<open>init()\<close> and \<open>checkHealth()\<close> both reject at the given moment.\<close>

definition failingProvider :: "string \<Rightarrow> nat \<Rightarrow> string \<Rightarrow> ModelProvider" where
  "failingProvider ident moment msg =
     \<lparr>provider_id = ident, getCapabilities = [''text-generation''],
      provider_init = (moment, Inl (Error msg)), provider_checkHealth = (moment, Inl (Error msg))\<rparr>"

text \<open>Two failing providers; the one registered second fails first.\<close>

definition slowAndFast :: ModelManager where
  "slowAndFast =
     registerModelProviders
       [failingProvider ''slow'' 5 ''slow provider is down'',
        failingProvider ''fast'' 1 ''fast provider is down'']
       new_ModelManager"

text \<open>
  The manager of one provider whose only capability is named by the empty string, with
  the alias from \<open>a\<close> to the empty string recorded.
\<close>

definition aliasedToEmpty :: ModelManager where
  "aliasedToEmpty =
     (registerModelProviders [sampleProvider ''openai'' ['''']] new_ModelManager)
       \<lparr>capabilityAliases := [(''a'', '''')]\<rparr>"

definition sampleMemory :: MemoryProvider where
  "sampleMemory = \<lparr>memory_id = ''sqlite'', memory_init = Inr (), memory_checkHealth = Inr ()\<rparr>"

definition samplePlugin :: "string \<Rightarrow> string list \<Rightarrow> Plugin" where
  "samplePlugin ident required =
     \<lparr>plugin_id = ident, plugin_name = ident, plugin_description = [],
      requiredCapabilities = required,
      executors = [(''get_current_time'', ''Reads the clock'')],
      plugin_init = (0, Inr ()),
      execute = (\<lambda>t act chain.
        (chain, Inr \<lparr>success = True, data = Some (map_of [(''time'', JStr ''10:00'')]),
                     error = None\<rparr>))\<rparr>"

definition sampleRuntime :: "AgentContext option \<Rightarrow> Runtime" where
  "sampleRuntime current =
     \<lparr>modelManager = registerModelProviders [sampleProvider ''openai'' [''text-generation'']]
                        new_ModelManager,
      memoryManager = sampleMemory,
      pluginRegistry = [(''time'', samplePlugin ''time'' [])],
      isRunning = True, eventQueue = [], currentContext = current\<rparr>"


fun parseStep :: "jsval \<Rightarrow> error + PipelineStep" where
  "parseStep (JObj kvs) =
     (case (map_of kvs ''pluginId'', map_of kvs ''action'') of
        (Some (JStr p), Some (JStr a)) \<Rightarrow> Inr \<lparr>pluginId = p, action = a\<rparr>
      | _ \<Rightarrow> Inl (Error ''Required''))"
| "parseStep v = Inl (Error ''Expected object'')"

fun parseSteps :: "jsval list \<Rightarrow> error + PipelineStep list" where
  "parseSteps [] = Inr []"
| "parseSteps (v # vs) =
     (case parseStep v of
        Inl e \<Rightarrow> Inl e
      | Inr step \<Rightarrow> (case parseSteps vs of Inl e \<Rightarrow> Inl e | Inr steps \<Rightarrow> Inr (step # steps)))"

definition samplePipelineSchema :: "PipelineStep list zodSchema" where
  "samplePipelineSchema =
     \<lparr>formatZodSchema = ''array of steps'',
      parse = (\<lambda>json. case json of JArr vs \<Rightarrow> parseSteps vs | _ \<Rightarrow> Inl (Error ''Expected array''))\<rparr>"

definition sampleModificationSchema :: "PipelineModification zodSchema" where
  "sampleModificationSchema =
     \<lparr>formatZodSchema = ''modification'',
      parse = (\<lambda>json. case json of
                 JObj kvs \<Rightarrow>
                   (case (map_of kvs ''shouldModify'', map_of kvs ''explanation'',
                          map_of kvs ''modifiedSteps'') of
                      (Some (JBool b), Some (JStr why), Some JNull) \<Rightarrow>
                        Inr \<lparr>shouldModify = b, explanation = why, modifiedSteps = None\<rparr>
                    | (Some (JBool b), Some (JStr why), Some (JArr vs)) \<Rightarrow>
                        (case parseSteps vs of
                           Inl e \<Rightarrow> Inl e
                         | Inr steps \<Rightarrow>
                             Inr \<lparr>shouldModify = b, explanation = why,
                                  modifiedSteps = Some steps\<rparr>)
                    | _ \<Rightarrow> Inl (Error ''Required''))
               | _ \<Rightarrow> Inl (Error ''Expected object''))\<rparr>"

text \<open>
  Sample collaborators around a given model and a given history store. The sample
  \<open>JSON.parse\<close> knows four texts: the empty plan, the plan of the clock step, the plan
  of a step for a plugin named \<open>ghost\<close>, and the modification that changes nothing.
\<close>

definition sampleJSON_parse :: "string \<Rightarrow> error + jsval" where
  "sampleJSON_parse txt =
     (if txt = ''[]'' then Inr (JArr [])
      else if txt = ''[time.get_current_time]'' then
        Inr (JArr [JObj [(''pluginId'', JStr ''time''), (''action'', JStr ''get_current_time'')]])
      else if txt = ''[ghost.haunt]'' then
        Inr (JArr [JObj [(''pluginId'', JStr ''ghost''), (''action'', JStr ''haunt'')]])
      else if txt = ''{keep}'' then
        Inr (JObj [(''shouldModify'', JBool False), (''explanation'', JStr ''done''),
                   (''modifiedSteps'', JNull)])
      else Inl (Error ''Unexpected token''))"

definition sampleGetUserInput :: "jsobject list \<Rightarrow> jsobject option" where
  "sampleGetUserInput chain =
     (case chain of
        [] \<Rightarrow> None
      | first # _ \<Rightarrow>
          if getField first ''type'' = JStr ''user_input'' then Some first else None)"

definition sampleCollaborators ::
  "(nat \<Rightarrow> string \<Rightarrow> error + string) \<Rightarrow> (nat \<Rightarrow> error + jsval list) \<Rightarrow> Collaborators" where
  "sampleCollaborators model history =
     \<lparr>textGeneration = model,
      generateObjectTemplate = (\<lambda>schema prompt. schema @ '': '' @ prompt),
      generateRetryTemplate = (\<lambda>schema prompt lastResponse err.
         schema @ '': '' @ prompt @ '' / '' @ lastResponse @ '' / '' @ err),
      extractJson = Inr,
      cleanJsonString = Inr,
      JSON_parse = sampleJSON_parse,
      JSON_stringify = (\<lambda>d. ''{}''),
      generatePipelineTemplate = (\<lambda>chain available current. ''plan''),
      generatePipelineModificationTemplate = (\<lambda>chain step pipeline available. ''modify?''),
      PipelineSchema = samplePipelineSchema,
      PipelineModificationSchema = sampleModificationSchema,
      getUserInput = sampleGetUserInput,
      getRecentConversationHistory = (\<lambda>t user platform. history t),
      storeUserInteraction = (\<lambda>t userInput. Inr ()),
      storeAssistantInteraction = (\<lambda>t user platform msg chain. Inr ()),
      dateNow = (\<lambda>t. 1700000000000 + t)\<rparr>"

definition badModel :: "nat \<Rightarrow> string \<Rightarrow> error + string" where
  "badModel t input = Inr ''sure, here it is: {bad json''"

definition recoveringModel :: "nat \<Rightarrow> string \<Rightarrow> error + string" where
  "recoveringModel t input = (if t = 0 then Inr ''sure, here it is: {bad json'' else Inr ''[]'')"

definition userInputItem :: jsobject where
  "userInputItem =
     map_of [(''id'', JStr ''telegram-1''), (''pluginId'', JStr ''telegram''),
             (''type'', JStr ''user_input''), (''action'', JStr ''receive_message''),
             (''content'', JStr ''what time is it?''), (''timestamp'', JNum 1),
             (''rawMessage'', JStr ''what time is it?''), (''user'', JStr ''alice'')]"


text \<open>A model that plans one step for a plugin named \<open>ghost\<close>.\<close>

definition ghostModel :: "nat \<Rightarrow> string \<Rightarrow> error + string" where
  "ghostModel t input =
     (if input = ''array of steps: plan'' then Inr ''[ghost.haunt]'' else Inr ''{keep}'')"

definition userContext :: "string \<Rightarrow> AgentContext" where
  "userContext conversation = \<lparr>contextChain = [userInputItem], conversationId = Some conversation\<rparr>"

text \<open>Producers that push one more context while the first event is processed and stop
  the runtime during the second iteration.\<close>

definition lateArrival :: Producers where
  "lateArrival =
     \<lparr>arrivals = (\<lambda>n. if n = 0 then [userContext ''c2''] else []),
      stopRequested = (\<lambda>n. n = 1)\<rparr>"


text \<open>A manager whose providers' \<open>init()\<close> calls settle as \<open>r\<close> says, all else equal.\<close>

definition withInit :: "(ModelProvider \<Rightarrow> unit awaited) \<Rightarrow> ModelManager \<Rightarrow> ModelManager" where
  "withInit r m = m\<lparr>models := map (\<lambda>(k, p). (k, p\<lparr>provider_init := r p\<rparr>)) (models m)\<rparr>"

section \<open>Lemmas on the helpers\<close>

lemma findIndex_Some:
  "findIndex P xs = Some i \<Longrightarrow> i < length xs \<and> P (xs ! i) \<and> (\<forall>j<i. \<not> P (xs ! j))"
proof (induction xs arbitrary: i)
  case Nil
  then show ?case by simp
next
  case (Cons x xs)
  show ?case
  proof (cases "P x")
    case True
    with Cons.prems show ?thesis by simp
  next
    case False
    with Cons.prems obtain k where k: "findIndex P xs = Some k" and i: "i = Suc k"
      by auto
    from Cons.IH [OF k] have "k < length xs" "P (xs ! k)" "\<forall>j<k. \<not> P (xs ! j)"
      by simp_all
    with False i show ?thesis
      by (auto simp: nth_Cons split: nat.splits)
  qed
qed

lemma findIndex_None: "findIndex P xs = None \<longleftrightarrow> (\<forall>x\<in>set xs. \<not> P x)"
  by (induction xs) auto

lemma capabilityRegistry_registerAliasesTo:
  "registerAliasesTo c g m = Inr m' \<Longrightarrow> capabilityRegistry m' = capabilityRegistry m"
  by (induction g arbitrary: m) (auto split: if_splits)

lemma Map_get_Map_set: "Map_get (Map_set k v m) k' = (if k' = k then Some v else Map_get m k')"
  by (induction m) (auto simp: Map_get_def)

lemma Map_has_Map_set: "Map_has (Map_set k v m) k' \<longleftrightarrow> k' = k \<or> Map_has m k'"
  by (induction m) (auto simp: Map_has_def)

lemma registerProvidedCapability_has:
  "CapabilityRegistry_hasCapability (registerProvidedCapability modelId capabilityId r) c \<longleftrightarrow>
     c = capabilityId \<or> CapabilityRegistry_hasCapability r c"
  by (simp add: registerProvidedCapability_def CapabilityRegistry_registerCapability_def
        setDefaultModelForCapability_def CapabilityRegistry_hasCapability_def Map_has_Map_set
        Let_def split: option.splits)

lemma fold_registerProvidedCapability_has:
  "CapabilityRegistry_hasCapability (fold (registerProvidedCapability modelId) caps r) c \<longleftrightarrow>
     c \<in> set caps \<or> CapabilityRegistry_hasCapability r c"
  by (induction caps arbitrary: r) (auto simp: registerProvidedCapability_has)

lemma registerModelProviders_has:
  "CapabilityRegistry_hasCapability (capabilityRegistry (registerModelProviders ps m)) c \<longleftrightarrow>
     (\<exists>p\<in>set ps. c \<in> set (getCapabilities p)) \<or>
     CapabilityRegistry_hasCapability (capabilityRegistry m) c"
  unfolding registerModelProviders_def
  by (induction ps arbitrary: m)
     (auto simp: registerModelProvider_def fold_registerProvidedCapability_has)

lemma registerModelProviders_aliases:
  "capabilityAliases (registerModelProviders ps m) = capabilityAliases m"
  unfolding registerModelProviders_def
  by (induction ps arbitrary: m) (auto simp: registerModelProvider_def)

text \<open>Every alias that is recorded leads to a capability of the registry.\<close>

lemma registerAliasesTo_targets:
  "registerAliasesTo c g m = Inr m' \<Longrightarrow>
   (\<And>k v. Map_get (capabilityAliases m) k = Some v \<Longrightarrow>
       CapabilityRegistry_hasCapability (capabilityRegistry m) v) \<Longrightarrow>
   Map_get (capabilityAliases m') k = Some v \<Longrightarrow>
   CapabilityRegistry_hasCapability (capabilityRegistry m) v"
proof (induction g arbitrary: m)
  case Nil
  then show ?case by simp
next
  case (Cons member rest)
  show ?case
  proof (cases "member = c")
    case True
    with Cons.prems(1) have "registerAliasesTo c rest m = Inr m'" by simp
    from Cons.IH [OF this Cons.prems(2) Cons.prems(3)] show ?thesis .
  next
    case False
    with Cons.prems(1) have has: "CapabilityRegistry_hasCapability (capabilityRegistry m) c"
      and rec: "registerAliasesTo c rest
                  (m\<lparr>capabilityAliases := Map_set member c (capabilityAliases m)\<rparr>) = Inr m'"
      by (auto split: if_splits)
    have "CapabilityRegistry_hasCapability
            (capabilityRegistry (m\<lparr>capabilityAliases := Map_set member c (capabilityAliases m)\<rparr>)) v"
    proof (rule Cons.IH [OF rec _ Cons.prems(3)])
      fix k' v'
      assume "Map_get (capabilityAliases
                (m\<lparr>capabilityAliases := Map_set member c (capabilityAliases m)\<rparr>)) k' = Some v'"
      then show "CapabilityRegistry_hasCapability
            (capabilityRegistry (m\<lparr>capabilityAliases := Map_set member c (capabilityAliases m)\<rparr>)) v'"
        using has Cons.prems(2) by (auto simp: Map_get_Map_set split: if_splits)
    qed
    then show ?thesis by simp
  qed
qed

lemma registerCapabilityAliases_targets:
  "registerCapabilityAliases gs m = Inr m' \<Longrightarrow>
   (\<And>k v. Map_get (capabilityAliases m) k = Some v \<Longrightarrow>
       CapabilityRegistry_hasCapability (capabilityRegistry m) v) \<Longrightarrow>
   capabilityRegistry m' = capabilityRegistry m \<and>
   (\<forall>k v. Map_get (capabilityAliases m') k = Some v \<longrightarrow>
       CapabilityRegistry_hasCapability (capabilityRegistry m) v)"
proof (induction gs arbitrary: m)
  case Nil
  then show ?case by auto
next
  case (Cons g gs)
  show ?case
  proof (cases "canonicalIdOf m g")
    case None
    with Cons.prems(1) have "registerCapabilityAliases gs m = Inr m'" by simp
    from Cons.IH [OF this Cons.prems(2)] show ?thesis by simp
  next
    case (Some c)
    with Cons.prems(1) obtain m1 where m1: "registerAliasesTo c g m = Inr m1"
      and rec: "registerCapabilityAliases gs m1 = Inr m'"
      by (auto split: sum.splits)
    have reg1: "capabilityRegistry m1 = capabilityRegistry m"
      by (rule capabilityRegistry_registerAliasesTo [OF m1])
    have inv1: "\<And>k v. Map_get (capabilityAliases m1) k = Some v \<Longrightarrow>
        CapabilityRegistry_hasCapability (capabilityRegistry m1) v"
      using registerAliasesTo_targets [OF m1 Cons.prems(2)] reg1 by simp
    from Cons.IH [OF rec inv1] reg1 show ?thesis by simp
  qed
qed






lemma earliestRejection_None:
  "earliestRejection cs = None \<longleftrightarrow> (\<forall>call\<in>set cs. \<not> isl (snd call))"
  by (induction cs rule: earliestRejection.induct) (auto split: sum.splits option.splits)

lemma earliestRejection_Some:
  "earliestRejection cs = Some (moment, e) \<Longrightarrow>
     (moment, Inl e) \<in> set cs \<and>
     (\<forall>call\<in>set cs. isl (snd call) \<longrightarrow> moment \<le> fst call)"
proof (induction cs arbitrary: moment e)
  case Nil
  then show ?case by simp
next
  case (Cons c cs)
  obtain mo outcome where c: "c = (mo, outcome)" by (cases c)
  show ?case
  proof (cases outcome)
    case (Inr v)
    with Cons.prems c have "earliestRejection cs = Some (moment, e)" by simp
    from Cons.IH [OF this] Inr c show ?thesis by auto
  next
    case (Inl e0)
    show ?thesis
    proof (cases "earliestRejection cs")
      case None
      with Cons.prems Inl c have "moment = mo" "e = e0" by simp_all
      with None Inl c show ?thesis by (auto simp: earliestRejection_None)
    next
      case (Some later)
      obtain mo' e' where later: "later = (mo', e')" by (cases later)
      note ih = Cons.IH [OF Some [unfolded later]]
      show ?thesis
      proof (cases "mo' < mo")
        case True
        with Cons.prems Inl Some later c have "moment = mo'" "e = e'" by simp_all
        with ih True Inl c show ?thesis by auto
      next
        case False
        with Cons.prems Inl Some later c have "moment = mo" "e = e0" by simp_all
        with ih False Inl c show ?thesis by fastforce
      qed
    qed
  qed
qed

lemma Promise_all_Inr:
  "(\<forall>call\<in>set cs. \<not> isl (snd call)) \<Longrightarrow> \<exists>vs. Promise_all cs = Inr vs"
  using earliestRejection_None [of cs] by (simp add: Promise_all_def)

lemma Promise_all_cases:
  "(case Promise_all cs of
      Inr vs \<Rightarrow> \<forall>call\<in>set cs. \<not> isl (snd call)
    | Inl e \<Rightarrow> \<exists>moment. (moment, Inl e) \<in> set cs \<and>
          (\<forall>call\<in>set cs. isl (snd call) \<longrightarrow> moment \<le> fst call))"
proof (cases "earliestRejection cs")
  case None
  then have "\<forall>call\<in>set cs. \<not> isl (snd call)"
    by (simp add: earliestRejection_None)
  with None show ?thesis by (simp add: Promise_all_def)
next
  case (Some first)
  obtain moment e where first: "first = (moment, e)" by (cases first)
  from earliestRejection_Some [OF Some [unfolded first]] Some first
  show ?thesis by (auto simp: Promise_all_def)
qed

lemma registry_sample:
  "capabilityRegistry (registerModelProviders [sampleProvider ''openai'' [''b'']] new_ModelManager) =
     \<lparr>providersOf = [(''b'', [''openai''])], defaultModels = [(''b'', ''openai'')]\<rparr>"
  by (simp add: registerModelProviders_def registerModelProvider_def sampleProvider_def
        new_ModelManager_def new_CapabilityRegistry_def registerProvidedCapability_def
        CapabilityRegistry_registerCapability_def getDefaultModelForCapability_def
        setDefaultModelForCapability_def Map_get_def)

lemma Map_set_map_snd:
  "Map_set k (f v) (map (\<lambda>(k, p). (k, f p)) ms) = map (\<lambda>(k, p). (k, f p)) (Map_set k v ms)"
  by (induction ms) auto

lemma registerModelProvider_withInit:
  "registerModelProvider (p\<lparr>provider_init := r p\<rparr>) (withInit r m) =
     withInit r (registerModelProvider p m)"
  using Map_set_map_snd [of "provider_id p" "\<lambda>p. p\<lparr>provider_init := r p\<rparr>" p "models m"]
  by (simp add: registerModelProvider_def withInit_def)

lemma registerModelProviders_withInit:
  "registerModelProviders (map (\<lambda>p. p\<lparr>provider_init := r p\<rparr>) ps) (withInit r m) =
     withInit r (registerModelProviders ps m)"
  unfolding registerModelProviders_def
  by (induction ps arbitrary: m) (simp_all add: registerModelProvider_withInit)

lemma withInit_new: "withInit r new_ModelManager = new_ModelManager"
  by (simp add: withInit_def new_ModelManager_def)

lemma hasCapability_withInit: "hasCapability (withInit r m) c = hasCapability m c"
  by (simp add: hasCapability_def resolveCapability_def withInit_def)

lemma canonicalIdOf_withInit: "canonicalIdOf (withInit r m) g = canonicalIdOf m g"
proof -
  have "hasCapability (withInit r m) = hasCapability m"
    by (rule ext) (rule hasCapability_withInit)
  then show ?thesis by (simp add: canonicalIdOf_def)
qed

lemma registerAliasesTo_withInit:
  "registerAliasesTo c g (withInit r m) = map_sum id (withInit r) (registerAliasesTo c g m)"
proof (induction g arbitrary: m)
  case Nil
  show ?case by simp
next
  case (Cons a g)
  have upd: "(withInit r m)\<lparr>capabilityAliases := Map_set a c (capabilityAliases (withInit r m))\<rparr> =
      withInit r (m\<lparr>capabilityAliases := Map_set a c (capabilityAliases m)\<rparr>)"
    by (simp add: withInit_def)
  have reg: "capabilityRegistry (withInit r m) = capabilityRegistry m"
    by (simp add: withInit_def)
  show ?case
    by (simp add: reg upd Cons.IH)
qed

lemma registerCapabilityAliases_withInit:
  "registerCapabilityAliases gs (withInit r m) =
     map_sum id (withInit r) (registerCapabilityAliases gs m)"
proof (induction gs arbitrary: m)
  case Nil
  show ?case by simp
next
  case (Cons g gs)
  show ?case
    by (cases "canonicalIdOf m g")
       (auto simp: canonicalIdOf_withInit registerAliasesTo_withInit Cons.IH split: sum.splits)
qed

lemma buildModelManager_withInit:
  "buildModelManager (map (\<lambda>p. p\<lparr>provider_init := r p\<rparr>) ps) al =
     map_sum id (withInit r) (buildModelManager ps al)"
  using registerModelProviders_withInit [of r ps new_ModelManager]
  by (simp add: buildModelManager_def withInit_new registerCapabilityAliases_withInit)

text \<open>
  The manager that \<open>Runtime.init\<close> builds: its registry holds the capabilities that the
  providers list, and every alias it records leads to one of them.
\<close>

lemma buildModelManager_targets:
  assumes "buildModelManager modelProviders groups = Inr m"
  shows "(CapabilityRegistry_hasCapability (capabilityRegistry m) c \<longleftrightarrow>
            (\<exists>p\<in>set modelProviders. c \<in> set (getCapabilities p)))"
    and "Map_get (capabilityAliases m) k = Some v \<Longrightarrow>
            CapabilityRegistry_hasCapability (capabilityRegistry m) v"
proof -
  let ?m0 = "registerModelProviders modelProviders new_ModelManager"
  have al: "capabilityAliases ?m0 = []"
    by (simp add: registerModelProviders_aliases new_ModelManager_def)
  have inv0: "\<And>k v. Map_get (capabilityAliases ?m0) k = Some v \<Longrightarrow>
       CapabilityRegistry_hasCapability (capabilityRegistry ?m0) v"
    by (simp add: al Map_get_def)
  from assms have r: "registerCapabilityAliases groups ?m0 = Inr m"
    by (simp add: buildModelManager_def)
  note t = registerCapabilityAliases_targets [OF r inv0]
  have "\<not> CapabilityRegistry_hasCapability (capabilityRegistry new_ModelManager) c"
    by (simp add: new_ModelManager_def new_CapabilityRegistry_def
          CapabilityRegistry_hasCapability_def Map_has_def)
  with t show "(CapabilityRegistry_hasCapability (capabilityRegistry m) c \<longleftrightarrow>
            (\<exists>p\<in>set modelProviders. c \<in> set (getCapabilities p)))"
    by (simp add: registerModelProviders_has)
  show "Map_get (capabilityAliases m) k = Some v \<Longrightarrow>
            CapabilityRegistry_hasCapability (capabilityRegistry m) v"
    using t by simp
qed

lemma ModelManager_init_resolves: "\<exists>vs. ModelManager_init m = Inr vs"
  unfolding ModelManager_init_def
  by (rule Promise_all_Inr) (auto simp: try_catch_def split: sum.splits)

lemma ModelManager_checkHealth_calls:
  "ModelManager_checkHealth m = Promise_all (map provider_checkHealth (Map_values (models m)))"
proof -
  have "apsnd (\<lambda>outcome. try_catch outcome (\<lambda>err. Inl err)) call = call"
    for call :: "unit awaited"
    by (cases call) (simp add: try_catch_def split: sum.splits)
  then show ?thesis by (simp add: ModelManager_checkHealth_def)
qed

lemma ModelManager_checkHealth_withInit:
  "ModelManager_checkHealth (withInit r m) = ModelManager_checkHealth m"
proof -
  have "map provider_checkHealth (Map_values (models (withInit r m))) =
        map provider_checkHealth (Map_values (models m))"
    by (simp add: withInit_def Map_values_def split_def)
  then show ?thesis by (simp add: ModelManager_checkHealth_calls)
qed

lemma checkRequiredCapabilities_withInit:
  "checkRequiredCapabilities (withInit r m) cs = checkRequiredCapabilities m cs"
  by (induction cs) (simp_all add: hasCapability_withInit)

lemma checkPluginCapabilities_withInit:
  "checkPluginCapabilities (withInit r m) i cs = checkPluginCapabilities m i cs"
  by (induction cs) (simp_all add: hasCapability_withInit)

lemma checkPluginsCapabilities_withInit:
  "checkPluginsCapabilities (withInit r m) ps = checkPluginsCapabilities m ps"
  by (induction ps) (simp_all add: checkPluginCapabilities_withInit split: sum.splits)

lemma Runtime_init_ignores_provider_init:
  "Runtime_init (map (\<lambda>p. p\<lparr>provider_init := r p\<rparr>) ps) mem pl al = Inl e \<longleftrightarrow>
   Runtime_init ps mem pl al = Inl e"
proof (cases "buildModelManager ps al")
  case (Inl e')
  then show ?thesis
    by (simp add: Runtime_init_def buildModelManager_withInit)
next
  case (Inr mm)
  obtain vs where i1: "ModelManager_init mm = Inr vs"
    using ModelManager_init_resolves by blast
  obtain vs' where i2: "ModelManager_init (withInit r mm) = Inr vs'"
    using ModelManager_init_resolves by blast
  show ?thesis
    using Inr i1 i2
    by (simp add: Runtime_init_def buildModelManager_withInit ModelManager_checkHealth_withInit
          checkRequiredCapabilities_withInit checkPluginsCapabilities_withInit
          split: sum.splits)
qed

subsection \<open>The retry loops\<close>

lemma decodeResponse_conforms:
  "decodeResponse C schema r = Inr v \<Longrightarrow> \<exists>json. parse schema json = Inr v"
  by (auto simp: decodeResponse_def split: sum.splits)

text \<open>The two tests of the loops when the bound is the whole number \<open>k\<close>.\<close>

lemma whole_less: "number_less (number_of_nat a) (Finite (of_nat k)) \<longleftrightarrow> a < k"
  by (simp add: number_of_nat_def)

lemma whole_last:
  "strictEquals (number_of_nat a) (number_minus (Finite (of_nat k)) (Finite 1)) \<longleftrightarrow> Suc a = k"
proof -
  have "(of_nat a = (of_nat k :: rat) - 1) \<longleftrightarrow> (of_nat (Suc a) = (of_nat k :: rat))"
    by (simp add: algebra_simps)
  then show ?thesis
    by (simp add: number_of_nat_def del: of_nat_Suc)
qed

lemma Runtime_getObject_parse_cases:
  "Runtime_getObject_parse C schema M attempt lr le = Finished c \<Longrightarrow>
     (\<exists>v json. c = Returned v \<and> parse schema json = Inr v) \<or>
     (\<exists>e. c = Threw e \<and> strictEquals (number_of_nat attempt) (number_minus M (Finite 1)))"
  by (auto simp: Runtime_getObject_parse_def split: sum.splits if_splits
           dest: decodeResponse_conforms)

lemma Runtime_getObject_parse_retry:
  "Runtime_getObject_parse C schema M attempt lr le = Retry s \<Longrightarrow>
     \<not> strictEquals (number_of_nat attempt) (number_minus M (Finite 1))"
  by (auto simp: Runtime_getObject_parse_def split: sum.splits if_splits)

lemma Runtime_getObject_attempt_cases:
  "Runtime_getObject_attempt C schema prompt M t attempt lr le = Finished c \<Longrightarrow>
     (\<exists>v json. c = Returned v \<and> parse schema json = Inr v) \<or>
     (\<exists>e. c = Threw e \<and> strictEquals (number_of_nat attempt) (number_minus M (Finite 1)))"
  unfolding Runtime_getObject_attempt_def
  by (cases "textGeneration C (t + attempt)
             (if attempt > 0
              then generateRetryTemplate C (formatZodSchema schema) prompt lr le
              else generateObjectTemplate C (formatZodSchema schema) prompt)")
     (use Runtime_getObject_parse_cases in \<open>fastforce split: if_splits\<close>)+

lemma Runtime_getObject_attempt_retry:
  "Runtime_getObject_attempt C schema prompt M t attempt lr le = Retry s \<Longrightarrow>
     \<not> strictEquals (number_of_nat attempt) (number_minus M (Finite 1))"
  unfolding Runtime_getObject_attempt_def
  by (cases "textGeneration C (t + attempt)
             (if attempt > 0
              then generateRetryTemplate C (formatZodSchema schema) prompt lr le
              else generateObjectTemplate C (formatZodSchema schema) prompt)")
     (use Runtime_getObject_parse_retry in \<open>fastforce split: if_splits\<close>)+

text \<open>
  With a whole bound \<open>k\<close> the loop of the method ends, from every attempt below the
  bound: with a parsed value, or with a throw on attempt \<open>k\<close>.
\<close>

lemma Runtime_getObject_loop_whole:
  "attempt < k \<Longrightarrow>
   \<exists>c n. Runtime_getObject_loop C schema prompt (Finite (of_nat k)) t attempt lr le = Some (c, n) \<and>
     ((\<exists>v json. c = Returned v \<and> parse schema json = Inr v \<and> attempt < n \<and> n \<le> k) \<or>
      (\<exists>e. c = Threw e \<and> n = k))"
proof (induction "k - attempt" arbitrary: attempt lr le)
  case 0
  then show ?case by simp
next
  case (Suc d)
  let ?M = "Finite (of_nat k) :: number"
  have enter: "number_less (number_of_nat attempt) ?M"
    using Suc.prems by (simp add: whole_less)
  show ?case
  proof (cases "Runtime_getObject_attempt C schema prompt ?M t attempt lr le")
    case (Finished c')
    have "Runtime_getObject_loop C schema prompt ?M t attempt lr le = Some (c', attempt + 1)"
      by (subst Runtime_getObject_loop.simps) (simp add: enter Finished)
    moreover from Runtime_getObject_attempt_cases [OF Finished, unfolded whole_last]
    have "(\<exists>v json. c' = Returned v \<and> parse schema json = Inr v) \<or>
          (\<exists>e. c' = Threw e \<and> Suc attempt = k)" .
    ultimately show ?thesis using Suc.prems by auto
  next
    case (Retry s)
    obtain lr' le' where s: "s = (lr', le')" by (cases s)
    from Runtime_getObject_attempt_retry [OF Retry, unfolded whole_last]
    have "Suc attempt \<noteq> k" .
    with Suc.prems have next_lt: "attempt + 1 < k" by simp
    from Suc.hyps(2) have d: "d = k - (attempt + 1)" by simp
    have step: "Runtime_getObject_loop C schema prompt ?M t attempt lr le =
        Runtime_getObject_loop C schema prompt ?M t (attempt + 1) lr' le'"
      by (subst Runtime_getObject_loop.simps) (simp add: enter Retry s)
    from Suc.hyps(1) [OF d next_lt, of lr' le'] show ?thesis
      unfolding step by auto
  qed
qed







text \<open>Without \<open>maxRetries\<close> the method settles.\<close>

lemma Runtime_getObject_default_settles:
  "\<exists>c n. Runtime_getObject C schema prompt None t = Some (c, n)"
  using Runtime_getObject_loop_whole [of 0 3 C schema prompt t "[]" "[]"]
  by (auto simp: Runtime_getObject_def)



lemma bad_eval_from:
  "Runtime_getObject (sampleCollaborators badModel h) schema prompt None t =
     (case decodeResponse (sampleCollaborators badModel h) schema ''sure, here it is: {bad json'' of
        Inr v \<Rightarrow> Some (Returned v, 1) | Inl e \<Rightarrow> Some (Threw e, 3))"
  by (simp add: Runtime_getObject_def Runtime_getObject_loop.simps Runtime_getObject_attempt_def
        Runtime_getObject_parse_def sampleCollaborators_def badModel_def decodeResponse_def
        sampleJSON_parse_def trim_def isSpace_def number_of_nat_def)









subsection \<open>Planning and execution\<close>

lemma generatePipeline_recovers:
  "\<exists>pipeline. fst (generatePipeline C template t) = Inr pipeline"
proof -
  obtain c n where "Runtime_getObject C (PipelineSchema C) template None t = Some (c, n)"
    using Runtime_getObject_default_settles by blast
  then show ?thesis
    by (auto simp: generatePipeline_def try_catch_def awaitObject_def
             split: sum.splits completion.splits)
qed

lemma generatePipeline_Threw:
  "Runtime_getObject C (PipelineSchema C) template None t = Some (Threw e, n) \<Longrightarrow>
     generatePipeline C template t = (Inr [], t + n)"
  by (simp add: generatePipeline_def try_catch_def awaitObject_def)

lemma evaluatePipelineModification_recovers:
  "\<exists>modification.
     fst (evaluatePipelineModification C chain currentStep pipeline available t) = Inr modification"
proof -
  obtain c n where "Runtime_getObject C (PipelineModificationSchema C)
      (generatePipelineModificationTemplate C chain currentStep pipeline available) None t =
        Some (c, n)"
    using Runtime_getObject_default_settles by blast
  then show ?thesis
    by (auto simp: evaluatePipelineModification_def try_catch_def awaitObject_def
             split: sum.splits completion.splits)
qed

lemma evaluatePipeline_history_rejection:
  "fetchConversationHistory C (getUserInput C (contextChain ctx)) (platformOf C ctx) t = (Inl e, t1)
     \<Longrightarrow> evaluatePipeline C registry ctx t = (Inl e, t1)"
  by (simp add: evaluatePipeline_def)

lemma getPlugin_never_undefined: "getPlugin registry ident \<noteq> Inr None"
  by (simp add: getPlugin_def split: option.splits)

lemma executeSteps_missing_plugin:
  assumes "currentStepIndex run < length (currentPipeline run)"
    and "Map_get registry (pluginId (currentPipeline run ! currentStepIndex run)) = None"
  shows "\<exists>e. executeSteps C registry (Suc fuel) run = (Aborted e, run)"
  using assms by (simp add: getPlugin_def)

subsection \<open>The loop and its trace\<close>

























lemma ghost_plan:
  "Runtime_getObject (sampleCollaborators ghostModel (\<lambda>t. Inr [])) samplePipelineSchema ''plan'' None t =
     Some (Returned [\<lparr>pluginId = ''ghost'', action = ''haunt''\<rparr>], 1)"
  by (simp add: number_of_nat_def Runtime_getObject_def Runtime_getObject_loop.simps Runtime_getObject_attempt_def
        Runtime_getObject_parse_def decodeResponse_def sampleCollaborators_def ghostModel_def
        sampleJSON_parse_def trim_def isSpace_def samplePipelineSchema_def)

lemma ghost_evaluatePipeline:
  "evaluatePipeline (sampleCollaborators ghostModel (\<lambda>t. Inr []))
     registry (userContext c) t = (Inr [\<lparr>pluginId = ''ghost'', action = ''haunt''\<rparr>], t + 2)"
proof -
  let ?C = "sampleCollaborators ghostModel (\<lambda>t. Inr [])"
  have h: "fetchConversationHistory ?C (getUserInput ?C (contextChain (userContext c)))
             (platformOf ?C (userContext c)) t = (Inr [], t + 1)"
    by (simp add: fetchConversationHistory_def sampleCollaborators_def sampleGetUserInput_def getField_def
          userContext_def userInputItem_def)
  have sch: "PipelineSchema ?C = samplePipelineSchema"
    and tpl: "\<And>a b c. generatePipelineTemplate ?C a b c = ''plan''"
    by (simp_all add: sampleCollaborators_def)
  show ?thesis
    by (simp add: evaluatePipeline_def h generatePipeline_def sch tpl ghost_plan
          try_catch_def awaitObject_def)
qed

lemma ghost_executePipeline:
  assumes "pluginRegistry rt = [(''time'', samplePlugin ''time'' [])]"
  shows "executePipeline C (Suc fuel) (\<lparr>pluginId = ''ghost'', action = ''haunt''\<rparr> # others) ctx t rt =
     (Aborted (Error ''Plugin ID ghost not found. Available plugins: time''),
      \<lparr>currentPipeline = \<lparr>pluginId = ''ghost'', action = ''haunt''\<rparr> # others,
       currentStepIndex = 0, liveChain = contextChain ctx, calls = t, executedSteps = []\<rparr>,
      rt\<lparr>currentContext := None\<rparr>)"
  using assms
  by (simp add: executePipeline_def getPlugin_def Map_get_def Map_keys_def)

lemma ghost_loop:
  "(case runEvaluationLoop (sampleCollaborators ghostModel (\<lambda>t. Inr [])) lateArrival 3
          (startLoop ((sampleRuntime None)\<lparr>eventQueue := [userContext ''c1'']\<rparr>)) of
      (outcome, st') \<Rightarrow>
        outcome = Aborted (Error ''Plugin ID ghost not found. Available plugins: time'') \<and>
        trace st' = [Dequeued 0 (userContext ''c1''), Settled 0])"
proof -
  let ?C = "sampleCollaborators ghostModel (\<lambda>t. Inr [])"
  have ui: "getUserInput ?C (contextChain (userContext ''c1'')) = Some userInputItem"
    by (simp add: sampleCollaborators_def sampleGetUserInput_def getField_def userContext_def
          userInputItem_def)
  have reg: "pluginRegistry (sampleRuntime None) = [(''time'', samplePlugin ''time'' [])]"
    by (simp add: sampleRuntime_def)
  show ?thesis
    unfolding numeral_3_eq_3
    by (simp add: startLoop_def processEvent_def ui ghost_evaluatePipeline
          ghost_executePipeline reg settle_def)
qed

section \<open>Structured object retrieval: the retry bound\<close>




section \<open>Planning errors\<close>

text \<open>
  Claim C3, as the code has it. Once the conversation history is fetched,
  \<open>evaluatePipeline\<close> does not raise, and returns the empty pipeline whenever its
  \<open>getObject\<close> call throws; \<open>evaluatePipelineModification\<close> never raises, and returns
  \<open>shouldModify = false\<close> with \<open>modifiedSteps = null\<close> whenever its \<open>getObject\<close> call throws.
\<close>

theorem planning_errors_are_recovered:
  assumes history:
    "fetchConversationHistory C (getUserInput C (contextChain ctx)) (platformOf C ctx) t =
       (Inr history, t1)"
  shows "(\<exists>pipeline. fst (evaluatePipeline C registry ctx t) = Inr pipeline) \<and>
         (\<forall>e n. Runtime_getObject C (PipelineSchema C)
                   (generatePipelineTemplate C (contextChain ctx) (availablePluginsOf registry)
                      (platformOf C ctx, messageOf C ctx, history))
                   None t1 = Some (Threw e, n) \<longrightarrow>
                 evaluatePipeline C registry ctx t = (Inr [], t1 + n)) \<and>
         (\<exists>modification.
             fst (evaluatePipelineModification C chain currentStep pipeline available t) =
               Inr modification) \<and>
         (\<forall>e n. Runtime_getObject C (PipelineModificationSchema C)
                   (generatePipelineModificationTemplate C chain currentStep pipeline available)
                   None t = Some (Threw e, n) \<longrightarrow>
                 evaluatePipelineModification C chain currentStep pipeline available t =
                   (Inr \<lparr>shouldModify = False,
                         explanation = ''Error evaluating pipeline modification'',
                         modifiedSteps = None\<rparr>, t + n))"
proof (intro conjI allI impI)
  show "\<exists>pipeline. fst (evaluatePipeline C registry ctx t) = Inr pipeline"
    using history generatePipeline_recovers by (simp add: evaluatePipeline_def)
next
  fix e n
  assume "Runtime_getObject C (PipelineSchema C)
            (generatePipelineTemplate C (contextChain ctx) (availablePluginsOf registry)
               (platformOf C ctx, messageOf C ctx, history))
            None t1 = Some (Threw e, n)"
  then show "evaluatePipeline C registry ctx t = (Inr [], t1 + n)"
    using history by (simp add: evaluatePipeline_def generatePipeline_Threw)
next
  show "\<exists>modification.
          fst (evaluatePipelineModification C chain currentStep pipeline available t) =
            Inr modification"
    by (rule evaluatePipelineModification_recovers)
next
  fix e n
  assume "Runtime_getObject C (PipelineModificationSchema C)
            (generatePipelineModificationTemplate C chain currentStep pipeline available)
            None t = Some (Threw e, n)"
  then show "evaluatePipelineModification C chain currentStep pipeline available t =
      (Inr \<lparr>shouldModify = False, explanation = ''Error evaluating pipeline modification'',
            modifiedSteps = None\<rparr>, t + n)"
    by (simp add: evaluatePipelineModification_def try_catch_def awaitObject_def)
qed

text \<open>
  The theorem of C3 with a model whose responses never parse: the history is fetched,
  \<open>getObject\<close> gives up after three attempts, and the results are the empty pipeline
  and the modification that changes nothing.
\<close>

theorem planning_errors_are_recovered_witness:
  "fetchConversationHistory (sampleCollaborators badModel (\<lambda>t. Inr []))
      (getUserInput (sampleCollaborators badModel (\<lambda>t. Inr [])) [userInputItem])
      (platformOf (sampleCollaborators badModel (\<lambda>t. Inr []))
         \<lparr>contextChain = [userInputItem], conversationId = None\<rparr>) 0 = (Inr [], 1) \<and>
   evaluatePipeline (sampleCollaborators badModel (\<lambda>t. Inr [])) []
      \<lparr>contextChain = [userInputItem], conversationId = None\<rparr> 0 = (Inr [], 4) \<and>
   fst (evaluatePipelineModification (sampleCollaborators badModel (\<lambda>t. Inr []))
          [userInputItem] \<lparr>pluginId = ''time'', action = ''get_current_time''\<rparr> [] [] 0) =
     Inr \<lparr>shouldModify = False, explanation = ''Error evaluating pipeline modification'',
          modifiedSteps = None\<rparr>"
proof -
  let ?C = "sampleCollaborators badModel (\<lambda>t. Inr [])"
  let ?ctx = "\<lparr>contextChain = [userInputItem], conversationId = None\<rparr>"
  have history: "fetchConversationHistory ?C (getUserInput ?C (contextChain ?ctx))
      (platformOf ?C ?ctx) 0 = (Inr [], 1)"
    by (simp add: fetchConversationHistory_def sampleCollaborators_def sampleGetUserInput_def getField_def
          userInputItem_def)
  have threw1: "Runtime_getObject ?C (PipelineSchema ?C)
      (generatePipelineTemplate ?C (contextChain ?ctx) (availablePluginsOf [])
         (platformOf ?C ?ctx, messageOf ?C ?ctx, [])) None 1 =
      Some (Threw (Error ''Unexpected token''), 3)"
    by (simp add: bad_eval_from)
       (simp add: decodeResponse_def sampleCollaborators_def sampleJSON_parse_def trim_def
          isSpace_def)
  have threw2: "Runtime_getObject ?C (PipelineModificationSchema ?C)
      (generatePipelineModificationTemplate ?C [userInputItem]
         \<lparr>pluginId = ''time'', action = ''get_current_time''\<rparr> [] []) None 0 =
      Some (Threw (Error ''Unexpected token''), 3)"
    by (simp add: bad_eval_from)
       (simp add: decodeResponse_def sampleCollaborators_def sampleJSON_parse_def trim_def
          isSpace_def)
  from planning_errors_are_recovered [OF history, where registry = "[]"
      and chain = "[userInputItem]"
      and currentStep = "\<lparr>pluginId = ''time'', action = ''get_current_time''\<rparr>"
      and pipeline = "[]" and available = "[]"]
    threw1 threw2 history
  show ?thesis by simp
qed

text \<open>
  Claim C3 as stated fails for an error thrown by the history fetch, which
  \<open>evaluatePipeline\<close> awaits before its \<open>try\<close> block: the error leaves \<open>evaluatePipeline\<close>.
\<close>

theorem evaluatePipeline_history_counterexample:
  "evaluatePipeline (sampleCollaborators recoveringModel (\<lambda>t. Inl (Error ''database is down'')))
     [] \<lparr>contextChain = [userInputItem], conversationId = None\<rparr> 0 =
   (Inl (Error ''database is down''), 1)"
  by (simp add: evaluatePipeline_def fetchConversationHistory_def sampleCollaborators_def
        sampleGetUserInput_def getField_def userInputItem_def)

section \<open>A step whose plugin is not registered\<close>

text \<open>
  Claim C2 on the code: for a pipeline whose first step names a plugin that is not
  registered, \<open>getPlugin\<close> throws, \<open>executePipeline\<close> ends with that error, the chain is
  as it was (no error item is appended) and the second step is not run. When the
  planned pipeline is such a step, the evaluation loop ends with the same error: the
  event is taken from the queue and settled without a step executed.
\<close>

theorem executePipeline_missing_plugin_aborts:
  "executePipeline (sampleCollaborators recoveringModel (\<lambda>t. Inr [])) 5
     [\<lparr>pluginId = ''ghost'', action = ''haunt''\<rparr>,
      \<lparr>pluginId = ''time'', action = ''get_current_time''\<rparr>]
     sampleContext 0 (sampleRuntime (Some sampleContext)) =
   (Aborted (Error ''Plugin ID ghost not found. Available plugins: time''),
    \<lparr>currentPipeline = [\<lparr>pluginId = ''ghost'', action = ''haunt''\<rparr>,
                         \<lparr>pluginId = ''time'', action = ''get_current_time''\<rparr>],
     currentStepIndex = 0, liveChain = contextChain sampleContext, calls = 0,
     executedSteps = []\<rparr>,
    (sampleRuntime (Some sampleContext))\<lparr>currentContext := None\<rparr>) \<and>
   (case runEvaluationLoop (sampleCollaborators ghostModel (\<lambda>t. Inr [])) lateArrival 3
          (startLoop ((sampleRuntime None)\<lparr>eventQueue := [userContext ''c1'']\<rparr>)) of
      (outcome, st') \<Rightarrow>
        outcome = Aborted (Error ''Plugin ID ghost not found. Available plugins: time'') \<and>
        trace st' = [Dequeued 0 (userContext ''c1''), Settled 0])"
proof
  have reg: "pluginRegistry (sampleRuntime (Some sampleContext)) = [(''time'', samplePlugin ''time'' [])]"
    by (simp add: sampleRuntime_def)
  have five: "(5::nat) = Suc 4" by simp
  show "executePipeline (sampleCollaborators recoveringModel (\<lambda>t. Inr [])) 5
     [\<lparr>pluginId = ''ghost'', action = ''haunt''\<rparr>,
      \<lparr>pluginId = ''time'', action = ''get_current_time''\<rparr>]
     sampleContext 0 (sampleRuntime (Some sampleContext)) =
   (Aborted (Error ''Plugin ID ghost not found. Available plugins: time''),
    \<lparr>currentPipeline = [\<lparr>pluginId = ''ghost'', action = ''haunt''\<rparr>,
                         \<lparr>pluginId = ''time'', action = ''get_current_time''\<rparr>],
     currentStepIndex = 0, liveChain = contextChain sampleContext, calls = 0,
     executedSteps = []\<rparr>,
    (sampleRuntime (Some sampleContext))\<lparr>currentContext := None\<rparr>)"
    unfolding five by (rule ghost_executePipeline [OF reg])
next
  show "(case runEvaluationLoop (sampleCollaborators ghostModel (\<lambda>t. Inr [])) lateArrival 3
          (startLoop ((sampleRuntime None)\<lparr>eventQueue := [userContext ''c1'']\<rparr>)) of
      (outcome, st') \<Rightarrow>
        outcome = Aborted (Error ''Plugin ID ghost not found. Available plugins: time'') \<and>
        trace st' = [Dequeued 0 (userContext ''c1''), Settled 0])"
    by (rule ghost_loop)
qed

section \<open>The evaluation loop\<close>



section \<open>The context chain\<close>

text \<open>
  Claim C6. While an event is being processed, \<open>pushToContextChain\<close> either finds the
  first entry of the chain with the item's \<open>(pluginId, action)\<close> pair and replaces it,
  where it stands, by the merge in which every field of the new item overwrites the
  field of the entry and the other fields of the entry stay, leaving the length and all
  other entries as they were; or, when no entry has that pair, it appends the item, so
  that the chain is one longer.
\<close>

theorem pushToContextChain_merge_or_append:
  assumes cur: "currentContext rt = Some ctx"
  shows "\<exists>ctx'. currentContext (pushToContextChain item rt) = Some ctx' \<and>
     (if \<exists>existing\<in>set (contextChain ctx). samePluginAction item existing
      then \<exists>i<length (contextChain ctx).
             samePluginAction item (contextChain ctx ! i) \<and>
             (\<forall>j<i. \<not> samePluginAction item (contextChain ctx ! j)) \<and>
             length (contextChain ctx') = length (contextChain ctx) \<and>
             (\<forall>j<length (contextChain ctx). j \<noteq> i \<longrightarrow> contextChain ctx' ! j = contextChain ctx ! j) \<and>
             (\<forall>field. (contextChain ctx' ! i) field =
                (case item field of Some v \<Rightarrow> Some v | None \<Rightarrow> (contextChain ctx ! i) field))
      else contextChain ctx' = contextChain ctx @ [item])"
proof (cases "findIndex (samePluginAction item) (contextChain ctx)")
  case None
  then have "\<not> (\<exists>existing\<in>set (contextChain ctx). samePluginAction item existing)"
    by (simp add: findIndex_None)
  with None cur show ?thesis
    by (simp add: pushToContextChain_def)
next
  case (Some i)
  from findIndex_Some [OF Some]
  have i: "i < length (contextChain ctx)" "samePluginAction item (contextChain ctx ! i)"
    "\<forall>j<i. \<not> samePluginAction item (contextChain ctx ! j)"
    by simp_all
  then have ex: "\<exists>existing\<in>set (contextChain ctx). samePluginAction item existing"
    using nth_mem by blast
  have merged: "\<And>field. spread (contextChain ctx ! i) item field =
      (case item field of Some v \<Rightarrow> Some v | None \<Rightarrow> (contextChain ctx ! i) field)"
    by (simp add: spread_def map_add_def split: option.splits)
  show ?thesis
    using Some cur i ex merged
    by (auto simp: pushToContextChain_def intro!: exI [of _ i])
qed

text \<open>
  The theorem of C6 on a chain of two entries: an item with the pair of the second entry
  is merged into it, and the chain still has two entries.
\<close>

theorem pushToContextChain_merge_or_append_witness:
  "currentContext (sampleRuntime (Some sampleContext)) = Some sampleContext \<and>
   (\<exists>ctx'. currentContext (pushToContextChain (sampleItem ''time'' ''get_current_time'' ''10:05'')
                (sampleRuntime (Some sampleContext))) = Some ctx' \<and>
      length (contextChain ctx') = 2 \<and>
      (contextChain ctx' ! 1) ''content'' = Some (JStr ''10:05''))"
  using pushToContextChain_merge_or_append [of "sampleRuntime (Some sampleContext)" sampleContext
      "sampleItem ''time'' ''get_current_time'' ''10:05''"]
  by (simp add: sampleRuntime_def sampleContext_def sampleItem_def pushToContextChain_def
        samePluginAction_def getField_def spread_def)

text \<open>
  Claim C10. When no event is being processed, the current context is \<open>undefined\<close>, and
  \<open>pushToContextChain\<close> returns without raising and leaves the runtime as it was: the
  item is dropped.
\<close>

theorem pushToContextChain_no_context:
  "currentContext rt = None \<Longrightarrow> pushToContextChain item rt = rt"
  by (simp add: pushToContextChain_def)

text \<open>The theorem of C10 on an idle runtime.\<close>

theorem pushToContextChain_no_context_witness:
  "currentContext (sampleRuntime None) = None \<and>
   pushToContextChain (sampleItem ''time'' ''get_current_time'' ''10:05'') (sampleRuntime None) =
     sampleRuntime None"
  using pushToContextChain_no_context [of "sampleRuntime None"
      "sampleItem ''time'' ''get_current_time'' ''10:05''"]
  by (simp add: sampleRuntime_def)

section \<open>The splice\<close>

text \<open>
  Claim C5. For a pipeline, the index \<open>i\<close> of the step just run and a modification with
  \<open>shouldModify\<close> true and \<open>modifiedSteps\<close> not \<open>null\<close>, the spliced pipeline is the
  entries \<open>0..i\<close> of the old pipeline followed by the modified steps: the entries up to
  \<open>i\<close> are unchanged, the modified steps follow at \<open>i + 1\<close>, and nothing else of the old
  pipeline remains. The loop of \<open>executePipeline\<close> splices only at an index inside the
  pipeline.
\<close>

theorem splice_keeps_prefix:
  assumes "shouldModify m" and "modifiedSteps m = Some steps" and "i < length p"
  shows "applyModification p i m = take (Suc i) p @ steps \<and>
         length (applyModification p i m) = Suc i + length steps \<and>
         (\<forall>k\<le>i. applyModification p i m ! k = p ! k) \<and>
         (\<forall>k<length steps. applyModification p i m ! (Suc i + k) = steps ! k)"
  using assms by (auto simp: applyModification_def nth_append)

text \<open>The theorem of C5 on a pipeline of three steps spliced after its first.\<close>

theorem splice_keeps_prefix_witness:
  "applyModification
     [\<lparr>pluginId = ''search'', action = ''query''\<rparr>, \<lparr>pluginId = ''time'', action = ''get_current_time''\<rparr>,
      \<lparr>pluginId = ''text'', action = ''generate_text''\<rparr>]
     0
     \<lparr>shouldModify = True, explanation = ''skip the clock'',
      modifiedSteps = Some [\<lparr>pluginId = ''text'', action = ''send_response''\<rparr>]\<rparr> =
   [\<lparr>pluginId = ''search'', action = ''query''\<rparr>, \<lparr>pluginId = ''text'', action = ''send_response''\<rparr>]"
  using splice_keeps_prefix [of
      "\<lparr>shouldModify = True, explanation = ''skip the clock'',
        modifiedSteps = Some [\<lparr>pluginId = ''text'', action = ''send_response''\<rparr>]\<rparr>"
      "[\<lparr>pluginId = ''text'', action = ''send_response''\<rparr>]" 0
      "[\<lparr>pluginId = ''search'', action = ''query''\<rparr>, \<lparr>pluginId = ''time'', action = ''get_current_time''\<rparr>,
        \<lparr>pluginId = ''text'', action = ''generate_text''\<rparr>]"]
  by simp

section \<open>Capability aliases\<close>

text \<open>
  Claim C7, as the code has it. Take the manager that \<open>Runtime.init\<close> has built from
  the providers and from the alias groups registered so far, and an alias group
  \<open>[a, b]\<close> such that some provider supplies \<open>b\<close> and none supplies \<open>a\<close>. If \<open>a\<close>
  does not resolve to another identifier yet (no alias is recorded for it, or one that
  reads as none) and \<open>b\<close> is not the empty string, then registering the group
  succeeds, \<open>a\<close> resolves to \<open>b\<close>, and \<open>hasCapability\<close> is true of both \<open>a\<close> and \<open>b\<close>.
\<close>

theorem alias_resolves_to_supplied_capability:
  assumes built: "buildModelManager modelProviders earlierGroups = Inr m"
    and b: "\<exists>p\<in>set modelProviders. b \<in> set (getCapabilities p)"
    and a: "\<forall>p\<in>set modelProviders. a \<notin> set (getCapabilities p)"
    and unresolved: "resolveCapability m a = a"
    and nonempty: "b \<noteq> []"
  shows "\<exists>m'. registerCapabilityAliases [[a, b]] m = Inr m' \<and>
           resolveCapability m' a = b \<and>
           hasCapability m' a \<and> hasCapability m' b \<and>
           hasCapability m' a = hasCapability m' b"
proof -
  have hb: "CapabilityRegistry_hasCapability (capabilityRegistry m) b"
    using buildModelManager_targets(1) [OF built] b by simp
  have na: "\<not> CapabilityRegistry_hasCapability (capabilityRegistry m) a"
    using buildModelManager_targets(1) [OF built] a by simp
  from hb na have ab: "a \<noteq> b" by auto
  have available: "hasCapability m b"
    using hb buildModelManager_targets(2) [OF built]
    by (auto simp: hasCapability_def resolveCapability_def split: option.splits)
  have ha: "\<not> hasCapability m a"
    using na unresolved by (simp add: hasCapability_def)
  have canon: "canonicalIdOf m [a, b] = Some b"
    using ha available by (simp add: canonicalIdOf_def)
  let ?m' = "m\<lparr>capabilityAliases := Map_set a b (capabilityAliases m)\<rparr>"
  have reg: "registerCapabilityAliases [[a, b]] m = Inr ?m'"
    using canon ab hb by simp
  have res_a: "resolveCapability ?m' a = b"
    using nonempty by (simp add: resolveCapability_def Map_get_Map_set)
  have res_b: "resolveCapability ?m' b = resolveCapability m b"
    using ab by (simp add: resolveCapability_def Map_get_Map_set)
  have hb': "hasCapability ?m' b"
    using available res_b by (simp add: hasCapability_def)
  have ha': "hasCapability ?m' a"
    using res_a hb by (simp add: hasCapability_def)
  show ?thesis
    using reg res_a ha' hb' by simp
qed

text \<open>
  The theorem of C7 on the manager built from one provider that supplies \<open>b\<close>, with the
  alias group \<open>["a", "b"]\<close>.
\<close>

theorem alias_resolves_to_supplied_capability_witness:
  "\<exists>m'. buildModelManager [sampleProvider ''openai'' [''b'']] [[''a'', ''b'']] = Inr m' \<and>
      resolveCapability m' ''a'' = ''b'' \<and> hasCapability m' ''a'' \<and> hasCapability m' ''b''"
proof -
  let ?ps = "[sampleProvider ''openai'' [''b'']]"
  let ?m = "registerModelProviders ?ps new_ModelManager"
  have built: "buildModelManager ?ps [] = Inr ?m"
    by (simp add: buildModelManager_def)
  have b: "\<exists>p\<in>set ?ps. ''b'' \<in> set (getCapabilities p)"
    by (simp add: sampleProvider_def)
  have a: "\<forall>p\<in>set ?ps. ''a'' \<notin> set (getCapabilities p)"
    by (simp add: sampleProvider_def)
  have unresolved: "resolveCapability ?m ''a'' = ''a''"
    by (simp add: resolveCapability_def registerModelProviders_aliases new_ModelManager_def
          Map_get_def)
  have nonempty: "''b'' \<noteq> []" by simp
  from alias_resolves_to_supplied_capability [OF built b a unresolved nonempty]
  show ?thesis unfolding buildModelManager_def by blast
qed

text \<open>
  Claim C7 as stated fails in two ways. When the capability that the provider supplies
  is the empty string, the alias is recorded and is then read as no alias, as
  \<open>aliases.get(id) || id\<close> takes the empty string for absent: \<open>hasCapability("a")\<close> is
  false while \<open>hasCapability("")\<close> is true. And when an earlier group has recorded an
  alias for \<open>a\<close>, here \<open>["a", "c"]\<close>, then \<open>a\<close> is itself chosen as the canonical id of
  the group \<open>["a", "b"]\<close> and the registration throws.
\<close>

theorem alias_resolution_counterexample:
  "buildModelManager [sampleProvider ''openai'' ['''']] [[''a'', '''']] = Inr aliasedToEmpty \<and>
   hasCapability aliasedToEmpty '''' \<and>
   \<not> hasCapability aliasedToEmpty ''a'' \<and>
   resolveCapability aliasedToEmpty ''a'' = ''a'' \<and>
   buildModelManager [sampleProvider ''openai'' [''b'', ''c'']] [[''a'', ''c''], [''a'', ''b'']] =
     Inl (Error ''Capability a not found'')"
  by (simp add: aliasedToEmpty_def buildModelManager_def registerModelProviders_def
        registerModelProvider_def
        sampleProvider_def new_ModelManager_def new_CapabilityRegistry_def
        registerProvidedCapability_def CapabilityRegistry_registerCapability_def
        getDefaultModelForCapability_def setDefaultModelForCapability_def Map_get_def
        canonicalIdOf_def hasCapability_def resolveCapability_def
        CapabilityRegistry_hasCapability_def Map_has_def)

section \<open>Startup checks\<close>



text \<open>
  Claim C9. \<open>ModelManager.init\<close> resolves whatever the \<open>init()\<close> calls of the providers
  do. \<open>ModelManager.checkHealth\<close> resolves only when no provider's health check fails,
  and otherwise rejects with the error of a health check that failed first: no other
  failing health check settled before it. And whether \<open>Runtime.init\<close> throws, and with
  which error, does not depend on how the \<open>init()\<close> calls of the providers settle.
\<close>

theorem init_tolerates_provider_failures:
  "(\<exists>vs. ModelManager_init m = Inr vs) \<and>
   (case ModelManager_checkHealth m of
      Inr vs \<Rightarrow> \<forall>model\<in>set (Map_values (models m)). \<not> isl (snd (provider_checkHealth model))
    | Inl err \<Rightarrow>
        \<exists>model\<in>set (Map_values (models m)).
          snd (provider_checkHealth model) = Inl err \<and>
          (\<forall>other\<in>set (Map_values (models m)).
             isl (snd (provider_checkHealth other)) \<longrightarrow>
               fst (provider_checkHealth model) \<le> fst (provider_checkHealth other))) \<and>
   (Runtime_init (map (\<lambda>p. p\<lparr>provider_init := r p\<rparr>) ps) mem pl al = Inl e \<longleftrightarrow>
    Runtime_init ps mem pl al = Inl e)"
proof (intro conjI)
  show "\<exists>vs. ModelManager_init m = Inr vs"
    by (rule ModelManager_init_resolves)
next
  let ?calls = "map provider_checkHealth (Map_values (models m))"
  show "(case ModelManager_checkHealth m of
      Inr vs \<Rightarrow> \<forall>model\<in>set (Map_values (models m)). \<not> isl (snd (provider_checkHealth model))
    | Inl err \<Rightarrow>
        \<exists>model\<in>set (Map_values (models m)).
          snd (provider_checkHealth model) = Inl err \<and>
          (\<forall>other\<in>set (Map_values (models m)).
             isl (snd (provider_checkHealth other)) \<longrightarrow>
               fst (provider_checkHealth model) \<le> fst (provider_checkHealth other)))"
  proof (cases "Promise_all ?calls")
    case (Inr vs)
    with Promise_all_cases [of ?calls] show ?thesis
      by (simp add: ModelManager_checkHealth_calls)
  next
    case (Inl err)
    with Promise_all_cases [of ?calls] obtain moment where
      first: "(moment, Inl err) \<in> set ?calls"
      and least: "\<forall>call\<in>set ?calls. isl (snd call) \<longrightarrow> moment \<le> fst call"
      by auto
    from first obtain model where model: "model \<in> set (Map_values (models m))"
      and call: "provider_checkHealth model = (moment, Inl err)"
      by auto
    from least call have "\<forall>other\<in>set (Map_values (models m)).
        isl (snd (provider_checkHealth other)) \<longrightarrow>
          fst (provider_checkHealth model) \<le> fst (provider_checkHealth other)"
      by simp
    with model call have "\<exists>model\<in>set (Map_values (models m)).
          snd (provider_checkHealth model) = Inl err \<and>
          (\<forall>other\<in>set (Map_values (models m)).
             isl (snd (provider_checkHealth other)) \<longrightarrow>
               fst (provider_checkHealth model) \<le> fst (provider_checkHealth other))"
      by (intro bexI [of _ model]) simp_all
    with Inl show ?thesis
      by (simp add: ModelManager_checkHealth_calls)
  qed
next
  show "Runtime_init (map (\<lambda>p. p\<lparr>provider_init := r p\<rparr>) ps) mem pl al = Inl e \<longleftrightarrow>
    Runtime_init ps mem pl al = Inl e"
    by (rule Runtime_init_ignores_provider_init)
qed

text \<open>
  The theorem of C9 on two providers whose \<open>init()\<close> and \<open>checkHealth()\<close> calls all
  reject: \<open>init\<close> resolves, and \<open>checkHealth\<close> rejects with the error of the provider
  registered second, whose health check fails first.
\<close>

theorem init_tolerates_provider_failures_witness:
  "(\<exists>vs. ModelManager_init slowAndFast = Inr vs) \<and>
   ModelManager_checkHealth slowAndFast = Inl (Error ''fast provider is down'') \<and>
   (\<exists>model\<in>set (Map_values (models slowAndFast)).
      provider_checkHealth model = (1, Inl (Error ''fast provider is down'')))"
proof -
  have health: "ModelManager_checkHealth slowAndFast = Inl (Error ''fast provider is down'')"
    by (simp add: ModelManager_checkHealth_def Promise_all_def slowAndFast_def
          registerModelProviders_def registerModelProvider_def failingProvider_def
          new_ModelManager_def Map_values_def try_catch_def)
  have models: "Map_values (models slowAndFast) =
      [failingProvider ''slow'' 5 ''slow provider is down'',
       failingProvider ''fast'' 1 ''fast provider is down'']"
    by (simp add: slowAndFast_def registerModelProviders_def registerModelProvider_def
          failingProvider_def new_ModelManager_def Map_values_def)
  from init_tolerates_provider_failures [of slowAndFast] health
  show ?thesis by (auto simp: models failingProvider_def)
qed

end
